theory Spec2Isabelle
  imports Complex_Main "HOL-Library.AList"
begin

section \<open>The symbolic engine, as far as a stage uses it\<close>

text \<open>
  The stage of rockit (\<^verbatim>\<open>src/rockit/stage.py\<close>) builds its problem out of CasADi
  \<^verbatim>\<open>MX\<close> expressions. CasADi is an external engine; the part of it the stage calls
  (\<^verbatim>\<open>MX.sym\<close>, \<^verbatim>\<open>depends_on\<close>, \<^verbatim>\<open>substitute\<close>, \<^verbatim>\<open>is_equal\<close>, \<^verbatim>\<open>DM.nan\<close>,
  \<^verbatim>\<open>shape\<close>) is modelled to the extent of the spec, section 6: symbols with a shape,
  a dependency query, and bulk substitution.

  A symbol is a node of the engine: two calls of \<^verbatim>\<open>MX.sym\<close> give two different nodes even
  for the same name. The node's identity is \<open>sym_id\<close>, taken from a counter in the
  \<open>world\<close>. The random digits the factories append to a dummy name (issue 25 of the
  repository) are left out of \<open>sym_name\<close>: they are digits and float punctuation only.
\<close>

record sym =
  sym_id :: nat
  sym_name :: string
  sym_shape :: "nat \<times> nat"

datatype op2 = Plus | Minus | Times | GreaterEq | LessEq | Equal

datatype mx =
    MXSym sym
  | MXConst real
  | MXNan "nat \<times> nat"
  | MXNeg mx
  | MXBin op2 mx mx

fun symbols :: "mx \<Rightarrow> sym list" where
  "symbols (MXSym s) = [s]"
| "symbols (MXConst c) = []"
| "symbols (MXNan sh) = []"
| "symbols (MXNeg a) = symbols a"
| "symbols (MXBin f a b) = symbols a @ symbols b"

text \<open>\<^verbatim>\<open>MX(expr).shape\<close>: a number is 1 x 1, a scalar operand is broadcast.\<close>

fun shape :: "mx \<Rightarrow> nat \<times> nat" where
  "shape (MXSym s) = sym_shape s"
| "shape (MXConst c) = (1, 1)"
| "shape (MXNan sh) = sh"
| "shape (MXNeg a) = shape a"
| "shape (MXBin f a b) = (if shape a = (1, 1) then shape b else shape a)"

text \<open>\<^verbatim>\<open>depends_on(expr, vertcat(...))\<close>: does \<open>expr\<close> contain one of the symbols.\<close>

definition depends_on :: "mx \<Rightarrow> sym list \<Rightarrow> bool" where
  "depends_on e vs = list_ex (\<lambda>v. v \<in> set (symbols e)) vs"

text \<open>
  \<^verbatim>\<open>substitute(exprs, v, vdef)\<close>: every expression of the batch is rewritten with the
  same mapping, the symbol \<open>v[i]\<close> becoming \<open>vdef[i]\<close>.
\<close>

fun subst1 :: "(sym \<times> mx) list \<Rightarrow> mx \<Rightarrow> mx" where
  "subst1 m (MXSym s) = (case map_of m s of None \<Rightarrow> MXSym s | Some e \<Rightarrow> e)"
| "subst1 m (MXConst c) = MXConst c"
| "subst1 m (MXNan sh) = MXNan sh"
| "subst1 m (MXNeg a) = MXNeg (subst1 m a)"
| "subst1 m (MXBin f a b) = MXBin f (subst1 m a) (subst1 m b)"

definition substitute :: "mx list \<Rightarrow> sym list \<Rightarrow> mx list \<Rightarrow> mx list" where
  "substitute exprs v vdef = map (subst1 (zip v vdef)) exprs"

text \<open>
  \<^verbatim>\<open>"opti" in str(var)\<close>: the printed form of an expression is made of its symbols'
  names, numerals and operator signs, so the word can only come from a name.
\<close>

fun contains :: "string \<Rightarrow> string \<Rightarrow> bool" where
  "contains sub [] = (sub = [])"
| "contains sub (c # cs) = (take (length sub) (c # cs) = sub \<or> contains sub cs)"

definition opti_in_str :: "mx \<Rightarrow> bool" where
  "opti_in_str e = list_ex (\<lambda>s. contains ''opti'' (sym_name s)) (symbols e)"

section \<open>Errors, values and the transcription method\<close>

datatype py_error =
    AssertionError
  | Exception string
  | IndexError
  | KeyError
  | AttributeError
  | TypeError

text \<open>An initial guess or parameter value is a number or an expression.\<close>

datatype guess = Num real | Expr mx

text \<open>
  \<^verbatim>\<open>_t0\<close> and \<^verbatim>\<open>_T\<close>: a number, a \<^verbatim>\<open>FreeTime(T_init)\<close> sentinel, or (after
  \<^verbatim>\<open>set_t0\<close>/\<^verbatim>\<open>set_T\<close>) an expression.

  Modelled from the spec: the class \<^verbatim>\<open>FreeTime\<close> (\<^verbatim>\<open>freetime.py\<close> is not among the
  sources) is the free-time sentinel of section 3, which stores the hint \<^verbatim>\<open>T_init\<close>.
\<close>

datatype time_val = Time real | FreeTime (T_init: guess) | TimeExpr mx

text \<open>
  Modelled from the spec: the metadata of a constraint (section 4.3). The helpers
  \<^verbatim>\<open>get_meta\<close> and \<^verbatim>\<open>merge_meta\<close> of \<^verbatim>\<open>casadi_helpers.py\<close> are not among the
  sources; what they return is a parameter of the operations that call them.
\<close>

type_synonym meta = string

text \<open>
  Modelled from the spec: the transcription method protocol (section 6). The classes
  \<^verbatim>\<open>DirectMethod\<close>, \<^verbatim>\<open>MultipleShooting\<close> and \<^verbatim>\<open>SingleShooting\<close> are not among the
  sources; a method is the attributes and point evaluators the stage reads. A stage
  owns its method instance, so the evaluators' \<^verbatim>\<open>stage\<close> argument is the owner and is
  not repeated. An evaluator returns the expression at the point or raises. A grid
  vector is the list of its entries.
\<close>

record Method =
  N :: int
  M :: int
  control_grid :: "mx list"
  integrator_grid :: "mx list"
  eval_at_control :: "mx \<Rightarrow> int \<Rightarrow> py_error + mx"
  eval_at_integrator :: "mx \<Rightarrow> int \<Rightarrow> int \<Rightarrow> py_error + mx"

section \<open>The stage and the world around it\<close>

text \<open>
  A leading underscore of a Python attribute is written as a trailing prime
  (\<^verbatim>\<open>_state_der\<close> is \<open>state_der'\<close>).

  Modelled from the spec: \<^verbatim>\<open>HashDict\<close>, \<^verbatim>\<open>HashOrderedDict\<close> and
  \<^verbatim>\<open>HashDefaultDict\<close> (\<^verbatim>\<open>casadi_helpers.py\<close> is not among the sources) are the
  identity-keyed maps from symbols and expressions of sections 3 and 9: association
  lists in insertion order, where \<^verbatim>\<open>d[k] = v\<close> is \<open>AList.update\<close>, which overwrites in
  place or appends, and a key is the expression itself, its symbols told apart by
  \<open>sym_id\<close>. A \<^verbatim>\<open>defaultdict(list)\<close> whose key order is never
  read (\<^verbatim>\<open>parameters\<close>, \<^verbatim>\<open>variables\<close>) is a total function; \<^verbatim>\<open>_constraints\<close>,
  whose keys \<^verbatim>\<open>clone\<close> iterates, is an association list.

  \<open>master'\<close> says whether \<^verbatim>\<open>_master\<close> is an object (not \<^verbatim>\<open>None\<close>); what the stage reads
  and writes through that reference lives in the \<open>world\<close>. The child list \<^verbatim>\<open>_stages\<close>
  is the \<open>children\<close> of a \<open>stage_tree\<close> node.
\<close>

datatype parent_ref = Parent (parent_master: bool)

record c_args =
  grid_arg :: string
  include_last_arg :: bool
  include_first_arg :: bool

type_synonym constraint = "mx \<times> meta \<times> c_args"

record Stage =
  states :: "sym list"
  qstates :: "sym list"
  controls :: "sym list"
  algebraics :: "sym list"
  parameters :: "string \<Rightarrow> sym list"
  variables :: "string \<Rightarrow> sym list"
  master' :: bool
  parent :: "parent_ref option"
  param_vals' :: "(mx \<times> guess) list"
  state_der' :: "(mx \<times> mx) list"
  state_next' :: "(mx \<times> mx) list"
  alg' :: "mx list"
  constraints' :: "(string \<times> constraint list) list"
  objective' :: mx
  initial' :: "(mx \<times> guess) list"
  placeholders' :: "(sym \<times> mx) list"
  placeholder_callbacks' :: "(sym \<times> string) list"
  offsets' :: "(sym \<times> mx \<times> int) list"
  inf_inert' :: "(sym \<times> mx) list"
  inf_der' :: "(sym \<times> mx) list"
  t' :: sym
  method' :: Method
  t0' :: time_val
  T' :: time_val
  public_T' :: mx
  public_t0' :: mx
  tf' :: mx
  is_transcribed' :: "bool option"

datatype stage_tree = Node (node: Stage) (children: "stage_tree list")

text \<open>
  The world: the engine's symbol counter, and the attributes of the tree's master that
  a stage reaches through \<^verbatim>\<open>self.master\<close>: \<^verbatim>\<open>_is_transcribed\<close>, the dirty mark of
  \<^verbatim>\<open>_transcribed_placeholders\<close>, and the initial-guess tables handed to the method
  of an already transcribed tree.
\<close>

record world =
  fresh :: nat
  master_is_transcribed :: bool
  master_placeholders_dirty :: bool
  method_set_initial_calls :: "(mx \<times> guess) list list"

definition MX_sym :: "string \<Rightarrow> nat \<times> nat \<Rightarrow> world \<Rightarrow> sym \<times> world" where
  "MX_sym name sh w =
     (\<lparr>sym_id = fresh w, sym_name = name, sym_shape = sh\<rparr>, w\<lparr>fresh := Suc (fresh w)\<rparr>)"

definition set_transcribed :: "Stage \<Rightarrow> bool \<Rightarrow> world \<Rightarrow> world" where
  "set_transcribed s val w = (if master' s then w\<lparr>master_is_transcribed := val\<rparr> else w)"

definition is_transcribed :: "Stage \<Rightarrow> world \<Rightarrow> bool" where
  "is_transcribed s w = (if master' s then master_is_transcribed w else False)"

subsection \<open>Dynamics\<close>

definition set_der :: "Stage \<Rightarrow> mx \<Rightarrow> mx \<Rightarrow> world \<Rightarrow> (py_error + unit) \<times> Stage \<times> world" where
  "set_der s state der w =
     (let w1 = set_transcribed s False w in
      if state_next' s \<noteq> [] then (Inl AssertionError, s, w1)
      else (Inr (), s\<lparr>state_der' := AList.update state der (state_der' s)\<rparr>, w1))"

definition set_next :: "Stage \<Rightarrow> mx \<Rightarrow> mx \<Rightarrow> world \<Rightarrow> (py_error + unit) \<times> Stage \<times> world" where
  "set_next s state nxt w =
     (let w1 = set_transcribed s False w;
          s1 = s\<lparr>state_next' := AList.update state nxt (state_next' s)\<rparr> in
      if state_der' s1 \<noteq> [] then (Inl AssertionError, s1, w1)
      else (Inr (), s1, w1))"

subsection \<open>Symbol factories\<close>

definition state :: "Stage \<Rightarrow> nat \<Rightarrow> nat \<Rightarrow> bool \<Rightarrow> world \<Rightarrow> mx \<times> Stage \<times> world" where
  "state s n_rows n_cols quad w =
     (let (x, w1) = MX_sym ''x'' (n_rows, n_cols) w;
          s1 = (if quad then s\<lparr>qstates := qstates s @ [x]\<rparr>
                else s\<lparr>states := states s @ [x]\<rparr>) in
      (MXSym x, s1, set_transcribed s False w1))"

definition algebraic :: "Stage \<Rightarrow> nat \<Rightarrow> nat \<Rightarrow> world \<Rightarrow> mx \<times> Stage \<times> world" where
  "algebraic s n_rows n_cols w =
     (let (z, w1) = MX_sym ''z'' (n_rows, n_cols) w in
      (MXSym z, s\<lparr>algebraics := algebraics s @ [z]\<rparr>, set_transcribed s False w1))"

definition variable :: "Stage \<Rightarrow> nat \<Rightarrow> nat \<Rightarrow> string \<Rightarrow> world \<Rightarrow> mx \<times> Stage \<times> world" where
  "variable s n_rows n_cols grid w =
     (let (v, w1) = MX_sym ''v'' (n_rows, n_cols) w in
      (MXSym v, s\<lparr>variables := (variables s)(grid := variables s grid @ [v])\<rparr>,
       set_transcribed s False w1))"

definition parameter :: "Stage \<Rightarrow> nat \<Rightarrow> nat \<Rightarrow> string \<Rightarrow> world \<Rightarrow> mx \<times> Stage \<times> world" where
  "parameter s n_rows n_cols grid w =
     (let (p, w1) = MX_sym ''p'' (n_rows, n_cols) w in
      (MXSym p, s\<lparr>parameters := (parameters s)(grid := parameters s grid @ [p])\<rparr>,
       set_transcribed s False w1))"

text \<open>
  A control of order \<open>k \<ge> 1\<close> is a state whose derivative is a control of order
  \<open>k - 1\<close>; \<^verbatim>\<open>set_der\<close> may raise on the way back.
\<close>

function control :: "Stage \<Rightarrow> nat \<Rightarrow> nat \<Rightarrow> int \<Rightarrow> world \<Rightarrow> (py_error + mx) \<times> Stage \<times> world" where
  "control s n_rows n_cols order w =
     (if order \<ge> 1 then
        (case state s n_rows n_cols False w of (u, s1, w1) \<Rightarrow>
           (case control s1 n_rows n_cols (order - 1) w1 of
              (Inl e, s2, w2) \<Rightarrow> (Inl e, s2, w2)
            | (Inr helper_u, s2, w2) \<Rightarrow>
                (case set_der s2 u helper_u w2 of
                   (Inl e, s3, w3) \<Rightarrow> (Inl e, s3, w3)
                 | (Inr _, s3, w3) \<Rightarrow> (Inr u, s3, w3))))
      else
        (let (u, w1) = MX_sym ''u'' (n_rows, n_cols) w in
         (Inr (MXSym u), s\<lparr>controls := controls s @ [u]\<rparr>, set_transcribed s False w1)))"
  by pat_completeness auto
termination
  by (relation "measure (\<lambda>(s, r, c, order, w). nat order)") auto

subsection \<open>Values and guesses\<close>

definition set_initial :: "Stage \<Rightarrow> mx \<Rightarrow> guess \<Rightarrow> world \<Rightarrow> (py_error + unit) \<times> Stage \<times> world" where
  "set_initial s var val w =
     (if opti_in_str var then (Inl AssertionError, s, w)
      else
        (let s1 = s\<lparr>initial' := AList.update var val (initial' s)\<rparr> in
         if master' s \<and> is_transcribed s w
         then (Inr (), s1,
               w\<lparr>method_set_initial_calls := method_set_initial_calls w @ [initial' s1]\<rparr>)
         else (Inr (), s1, w)))"

definition set_t0 :: "Stage \<Rightarrow> time_val \<Rightarrow> Stage" where
  "set_t0 s v = s\<lparr>t0' := v\<rparr>"

definition set_T :: "Stage \<Rightarrow> time_val \<Rightarrow> Stage" where
  "set_T s v = s\<lparr>T' := v\<rparr>"

definition add_alg :: "Stage \<Rightarrow> mx \<Rightarrow> world \<Rightarrow> Stage \<times> world" where
  "add_alg s constr w = (s\<lparr>alg' := alg' s @ [constr]\<rparr>, set_transcribed s False w)"

subsection \<open>Placeholders\<close>

definition create_placeholder_expr :: "Stage \<Rightarrow> mx \<Rightarrow> string \<Rightarrow> world \<Rightarrow> mx \<times> Stage \<times> world" where
  "create_placeholder_expr s expr callback_name w =
     (let (r, w1) = MX_sym (''r_'' @ callback_name) (shape expr) w;
          s1 = s\<lparr>placeholders' := AList.update r expr (placeholders' s),
                 placeholder_callbacks' := AList.update r callback_name (placeholder_callbacks' s)\<rparr>;
          w2 = (if master' s then w1\<lparr>master_placeholders_dirty := True\<rparr> else w1) in
      (MXSym r, s1, w2))"

definition at_t0 :: "Stage \<Rightarrow> mx \<Rightarrow> world \<Rightarrow> mx \<times> Stage \<times> world" where
  "at_t0 s expr w = create_placeholder_expr s expr ''at_t0'' w"

definition at_tf :: "Stage \<Rightarrow> mx \<Rightarrow> world \<Rightarrow> mx \<times> Stage \<times> world" where
  "at_tf s expr w = create_placeholder_expr s expr ''at_tf'' w"

definition integral :: "Stage \<Rightarrow> mx \<Rightarrow> string \<Rightarrow> world \<Rightarrow> (py_error + mx) \<times> Stage \<times> world" where
  "integral s expr grid w =
     (if grid = ''inf'' then
        (case state s 1 1 True w of (I, s1, w1) \<Rightarrow>
           (case set_der s1 I expr w1 of
              (Inl e, s2, w2) \<Rightarrow> (Inl e, s2, w2)
            | (Inr _, s2, w2) \<Rightarrow>
                (case at_tf s2 I w2 of (r, s3, w3) \<Rightarrow> (Inr r, s3, w3))))
      else
        (case create_placeholder_expr s expr ''integral_control'' w of
           (r, s1, w1) \<Rightarrow> (Inr r, s1, w1)))"

text \<open>\<^verbatim>\<open>sum\<close> takes a \<^verbatim>\<open>grid\<close> argument (default \<^verbatim>\<open>inf\<close>) and never reads it.\<close>

definition sum_stage :: "Stage \<Rightarrow> mx \<Rightarrow> string \<Rightarrow> world \<Rightarrow> mx \<times> Stage \<times> world" where
  "sum_stage s expr grid w = create_placeholder_expr s expr ''sum_control'' w"

text \<open>\<^verbatim>\<open>int(offset)\<close> of a Python number truncates towards zero.\<close>

definition py_int :: "real \<Rightarrow> int" where
  "py_int x = (if 0 \<le> x then \<lfloor>x\<rfloor> else \<lceil>x\<rceil>)"

definition offset :: "Stage \<Rightarrow> mx \<Rightarrow> real \<Rightarrow> world \<Rightarrow> (py_error + mx) \<times> Stage \<times> world" where
  "offset s expr k w =
     (if real_of_int (py_int k) \<noteq> k then (Inl (Exception ''Integer expected''), s, w)
      else
        (let (ret, w1) = MX_sym ''offset'' (shape expr) w in
         (Inr (MXSym ret),
          s\<lparr>offsets' := AList.update ret (expr, py_int k) (offsets' s)\<rparr>, w1)))"

definition next_stage :: "Stage \<Rightarrow> mx \<Rightarrow> world \<Rightarrow> (py_error + mx) \<times> Stage \<times> world" where
  "next_stage s expr w = offset s expr 1 w"

definition prev :: "Stage \<Rightarrow> mx \<Rightarrow> world \<Rightarrow> (py_error + mx) \<times> Stage \<times> world" where
  "prev s expr w = offset s expr (- 1) w"

definition inf_inert :: "Stage \<Rightarrow> mx \<Rightarrow> world \<Rightarrow> mx \<times> Stage \<times> world" where
  "inf_inert s expr w =
     (let (ret, w1) = MX_sym ''inert'' (shape expr) w in
      (MXSym ret, s\<lparr>inf_inert' := AList.update ret expr (inf_inert' s)\<rparr>, w1))"

definition inf_der :: "Stage \<Rightarrow> mx \<Rightarrow> world \<Rightarrow> mx \<times> Stage \<times> world" where
  "inf_der s expr w =
     (let (ret, w1) = MX_sym ''der'' (shape expr) w in
      (MXSym ret, s\<lparr>inf_der' := AList.update ret expr (inf_der' s)\<rparr>, w1))"

subsection \<open>Constraints and objective\<close>

text \<open>The properties \<^verbatim>\<open>x\<close>, \<^verbatim>\<open>u\<close>, \<^verbatim>\<open>z\<close>: the symbols stacked into one vector.\<close>

definition x_vec :: "Stage \<Rightarrow> sym list" where
  "x_vec s = states s"

definition u_vec :: "Stage \<Rightarrow> sym list" where
  "u_vec s = (if length (controls s) = 0 then [] else controls s)"

definition z_vec :: "Stage \<Rightarrow> sym list" where
  "z_vec s = algebraics s"

definition is_signal :: "Stage \<Rightarrow> mx \<Rightarrow> bool" where
  "is_signal s expr =
     depends_on expr
       (x_vec s @ u_vec s @ z_vec s @ [t' s]
        @ (variables s ''control'' @ variables s ''states'')
        @ map fst (inf_der' s))"

definition clear_constraints :: "Stage \<Rightarrow> world \<Rightarrow> Stage \<times> world" where
  "clear_constraints s w = (s\<lparr>constraints' := []\<rparr>, set_transcribed s False w)"

text \<open>\<^verbatim>\<open>d[k]\<close> of a \<^verbatim>\<open>defaultdict(list)\<close>: the list stored, or a new empty one.\<close>

definition dd_get :: "('k \<times> 'v list) list \<Rightarrow> 'k \<Rightarrow> 'v list" where
  "dd_get d k = (case map_of d k of None \<Rightarrow> [] | Some v \<Rightarrow> v)"

definition grids :: "string list" where
  "grids = [''point'', ''control'', ''inf'', ''integrator'', ''integrator_roots'']"

text \<open>The apostrophe of the error messages.\<close>

definition apostrophe :: string where
  "apostrophe = [CHR 0x27]"

text \<open>
  \<^verbatim>\<open>casadi_helpers.get_meta\<close> is not among the sources: the argument \<open>meta\<close> is the
  metadata \<^verbatim>\<open>get_meta(meta)\<close> gives for the call.
\<close>

definition subject_to ::
  "Stage \<Rightarrow> mx \<Rightarrow> string option \<Rightarrow> bool \<Rightarrow> bool \<Rightarrow> meta \<Rightarrow> world \<Rightarrow> (py_error + unit) \<times> Stage \<times> world" where
  "subject_to s constr grid include_first include_last meta w =
     (let w1 = set_transcribed s False w;
          g = (case grid of
                 None \<Rightarrow> (if is_signal s constr then ''control'' else ''point'')
               | Some g0 \<Rightarrow> g0) in
      if g \<notin> set grids then (Inl (Exception ''Invalid argument''), s, w1)
      else if is_signal s constr \<and> g = ''point''
        then (Inl (Exception (''Got a signal expression for grid '' @ apostrophe @ ''point''
                              @ apostrophe @ ''.'')), s, w1)
      else if \<not> is_signal s constr \<and> g \<noteq> ''point''
        then (Inl (Exception (''Expected signal expression since grid '' @ apostrophe @ g
                              @ apostrophe @ '' was given.'')), s, w1)
      else
        (let args = \<lparr>grid_arg = g, include_last_arg = include_last,
                       include_first_arg = include_first\<rparr> in
         (Inr (),
          s\<lparr>constraints' :=
              AList.update g (dd_get (constraints' s) g @ [(constr, meta, args)]) (constraints' s)\<rparr>,
          w1)))"

definition add_objective :: "Stage \<Rightarrow> mx \<Rightarrow> world \<Rightarrow> Stage \<times> world" where
  "add_objective s term w =
     (s\<lparr>objective' := MXBin Plus (objective' s) term\<rparr>, set_transcribed s False w)"

text \<open>
  \<^verbatim>\<open>method\<close> stores a deep copy of its argument and lets it \<^verbatim>\<open>inherit\<close> from the method
  it replaces; \<^verbatim>\<open>inherit\<close> belongs to the method classes and is a parameter.
\<close>

definition method_stage :: "(Method \<Rightarrow> Method \<Rightarrow> Method) \<Rightarrow> Stage \<Rightarrow> Method \<Rightarrow> world \<Rightarrow> Stage \<times> world" where
  "method_stage inherit s m w =
     (let w1 = set_transcribed s False w;
          template = method' s in
      (s\<lparr>method' := inherit m template\<rparr>, w1))"

subsection \<open>Construction and free time\<close>

text \<open>
  \<open>frame\<close> is the metadata \<^verbatim>\<open>get_meta()\<close> builds for the constraint that
  \<^verbatim>\<open>_check_free_time\<close> adds.
\<close>

definition check_free_time :: "Stage \<Rightarrow> meta \<Rightarrow> world \<Rightarrow> (py_error + unit) \<times> Stage \<times> world" where
  "check_free_time s frame w =
     (case (case t0' s of
              FreeTime init \<Rightarrow>
                (case variable s 1 1 '''' w of (v, sa, wa) \<Rightarrow>
                   set_initial (set_t0 sa (TimeExpr v)) v init wa)
            | _ \<Rightarrow> (Inr (), s, w)) of
        (Inl e, s1, w1) \<Rightarrow> (Inl e, s1, w1)
      | (Inr _, s1, w1) \<Rightarrow>
          (case T' s1 of
             FreeTime init \<Rightarrow>
               (case variable s1 1 1 '''' w1 of (v, sa, wa) \<Rightarrow>
                  (case subject_to (set_T sa (TimeExpr v)) (MXBin GreaterEq v (MXConst 0))
                          None True True frame wa of
                     (Inl e, sc, wc) \<Rightarrow> (Inl e, sc, wc)
                   | (Inr _, sc, wc) \<Rightarrow> set_initial sc v init wc))
           | _ \<Rightarrow> (Inr (), s1, w1)))"

text \<open>
  The constructor. \<open>dm\<close> is the object \<^verbatim>\<open>DirectMethod()\<close> builds. The three attributes
  assigned last (\<^verbatim>\<open>_public_T\<close>, \<^verbatim>\<open>_public_t0\<close>, \<^verbatim>\<open>_tf\<close>) hold a filler in \<open>blank\<close>
  until their assignment.
\<close>

definition blank :: "Method \<Rightarrow> parent_ref option \<Rightarrow> time_val \<Rightarrow> time_val \<Rightarrow> sym \<Rightarrow> Stage" where
  "blank dm par t0 T t =
     \<lparr>states = [], qstates = [], controls = [], algebraics = [],
      parameters = (\<lambda>_. []), variables = (\<lambda>_. []),
      master' = (case par of None \<Rightarrow> False | Some p \<Rightarrow> parent_master p),
      parent = par,
      param_vals' = [], state_der' = [], state_next' = [], alg' = [],
      constraints' = [], objective' = MXConst 0, initial' = [],
      placeholders' = [], placeholder_callbacks' = [], offsets' = [],
      inf_inert' = [], inf_der' = [],
      t' = t, method' = dm, t0' = t0, T' = T,
      public_T' = MXConst 0, public_t0' = MXConst 0, tf' = MXConst 0,
      is_transcribed' = None\<rparr>"

definition Stage_init ::
  "Method \<Rightarrow> meta \<Rightarrow> parent_ref option \<Rightarrow> time_val \<Rightarrow> time_val \<Rightarrow> bool \<Rightarrow> world \<Rightarrow> (py_error + Stage) \<times> world" where
  "Stage_init dm frame par t0 T clone_flag w =
     (case MX_sym ''t'' (1, 1) w of (t, w1) \<Rightarrow>
      case create_placeholder_expr (blank dm par t0 T t) (MXConst 0) ''T'' w1 of (pT, s1, w2) \<Rightarrow>
      case create_placeholder_expr s1 (MXConst 0) ''t0'' w2 of (pt0, s2, w3) \<Rightarrow>
        (let s3 = s2\<lparr>public_T' := pT, public_t0' := pt0, tf' := MXBin Plus pT pt0\<rparr> in
         if \<not> clone_flag then
           (case check_free_time s3 frame w3 of
              (Inl e, s4, w4) \<Rightarrow> (Inl e, w4)
            | (Inr _, s4, w4) \<Rightarrow> (Inr s4, w4))
         else (Inr s3, w3)))"

text \<open>Keyword arguments of \<^verbatim>\<open>Stage(parent, **kwargs)\<close> and their defaults.\<close>

record kwargs =
  kw_t0 :: "time_val option"
  kw_T :: "time_val option"
  kw_clone :: "bool option"

definition no_kwargs :: kwargs where
  "no_kwargs = \<lparr>kw_t0 = None, kw_T = None, kw_clone = None\<rparr>"

definition Stage_kw :: "Method \<Rightarrow> meta \<Rightarrow> parent_ref option \<Rightarrow> kwargs \<Rightarrow> world \<Rightarrow> (py_error + Stage) \<times> world" where
  "Stage_kw dm frame par kw w =
     Stage_init dm frame par
       (case kw_t0 kw of None \<Rightarrow> Time 0 | Some v \<Rightarrow> v)
       (case kw_T kw of None \<Rightarrow> Time 1 | Some v \<Rightarrow> v)
       (case kw_clone kw of None \<Rightarrow> False | Some b \<Rightarrow> b) w"

subsection \<open>Cloning\<close>

text \<open>
  \<^verbatim>\<open>copy\<close> of a list or dictionary is a new container of the same entries: in the
  model, the value itself. \<^verbatim>\<open>copy\<close> and \<^verbatim>\<open>deepcopy\<close> of an expression are taken to
  wrap the same engine node (the engine's expressions are immutable handles, and
  \<^verbatim>\<open>substitute\<close>, \<^verbatim>\<open>depends_on\<close> and \<^verbatim>\<open>is_equal\<close> go by the node): a copied symbol
  is the symbol it was. So \<open>parameters\<close>, \<open>variables\<close>, \<open>offsets'\<close>, \<open>T'\<close> and
  \<open>t0'\<close> of the clone are the template's values; the clone calls no
  \<^verbatim>\<open>MX.sym\<close> for any of them. \<^verbatim>\<open>is_equal(k, self.T)\<close> compares nodes.
\<close>

fun clone_subst_to :: "Stage \<Rightarrow> Stage \<Rightarrow> sym list \<Rightarrow> world \<Rightarrow> mx list \<times> world" where
  "clone_subst_to self ret [] w = ([], w)"
| "clone_subst_to self ret (k # ks) w =
     (if MXSym k = public_T' self then
        (case clone_subst_to self ret ks w of (to, w1) \<Rightarrow> (public_T' ret # to, w1))
      else if MXSym k = public_t0' self then
        (case clone_subst_to self ret ks w of (to, w1) \<Rightarrow> (public_t0' ret # to, w1))
      else
        (case MX_sym (sym_name k) (sym_shape k) w of (r, w1) \<Rightarrow>
           (case clone_subst_to self ret ks w1 of (to, w2) \<Rightarrow> (MXSym r # to, w2))))"

text \<open>\<^verbatim>\<open>d[k]\<close> of a dictionary raises \<^verbatim>\<open>KeyError\<close> for a key it does not hold.\<close>

definition getitem :: "('k \<times> 'v) list \<Rightarrow> 'k \<Rightarrow> py_error + 'v" where
  "getitem d k = (case map_of d k of None \<Rightarrow> Inl KeyError | Some v \<Rightarrow> Inr v)"

text \<open>
  The new keys are symbols, but the clone's own \<^verbatim>\<open>T\<close> and \<^verbatim>\<open>t0\<close> are read as
  expressions; an expression that is not a symbol cannot be a key of the registry.
\<close>

fun clone_placeholders :: "Stage \<Rightarrow> (sym \<times> mx) list \<Rightarrow> Stage \<Rightarrow> py_error + Stage" where
  "clone_placeholders self [] ret = Inr ret"
| "clone_placeholders self ((k_old, MXSym k_new) # ps) ret =
     (case getitem (placeholder_callbacks' self) k_old of
        Inl e \<Rightarrow> Inl e
      | Inr cb \<Rightarrow>
          (case getitem (placeholders' self) k_old of
             Inl e \<Rightarrow> Inl e
           | Inr ex \<Rightarrow>
               clone_placeholders self ps
                 (ret\<lparr>placeholder_callbacks' := AList.update k_new cb (placeholder_callbacks' ret),
                      placeholders' := AList.update k_new ex (placeholders' ret)\<rparr>)))"
| "clone_placeholders self ((k_old, other) # ps) ret = Inl TypeError"

fun clone_constraints ::
  "(meta \<Rightarrow> meta) \<Rightarrow> (string \<times> constraint list) list \<Rightarrow> string list \<Rightarrow> mx list
     \<Rightarrow> (string \<times> constraint list) list \<Rightarrow> (string \<times> constraint list) list" where
  "clone_constraints merge cs [] r acc = acc"
| "clone_constraints merge cs (k # ks) r acc =
     (let v = dd_get cs k in
      clone_constraints merge cs ks (drop (length v) r)
        (AList.update k
           (zip r (zip (map (\<lambda>(c, m, d). merge m) v) (map (\<lambda>(c, m, d). d) v))) acc))"

definition dict_of :: "('k \<times> 'v) list \<Rightarrow> ('k \<times> 'v) list" where
  "dict_of ps = foldl (\<lambda>d (k, v). AList.update k v d) [] ps"

definition clone_orig :: "Stage \<Rightarrow> mx list" where
  "clone_orig self =
     concat (map (\<lambda>k. map fst (dd_get (constraints' self) k)) (map fst (constraints' self)))
     @ [objective' self] @ map fst (initial' self)"

definition clone_n_constr :: "Stage \<Rightarrow> nat" where
  "clone_n_constr self =
     length (concat (map (\<lambda>k. map fst (dd_get (constraints' self) k)) (map fst (constraints' self))))"

text \<open>
  \<open>merge\<close> is \<^verbatim>\<open>merge_meta(m, get_meta())\<close> as a function of \<open>m\<close>
  (\<^verbatim>\<open>casadi_helpers\<close> is not among the sources).
\<close>

definition clone ::
  "Method \<Rightarrow> meta \<Rightarrow> (meta \<Rightarrow> meta) \<Rightarrow> Stage \<Rightarrow> parent_ref option \<Rightarrow> kwargs \<Rightarrow> world
     \<Rightarrow> (py_error + Stage) \<times> world" where
  "clone dm frame merge self par kw w =
     (case Stage_kw dm frame par kw w of
        (Inl e, w0) \<Rightarrow> (Inl e, w0)
      | (Inr ret, w0) \<Rightarrow>
          (let subst_from = map fst (placeholders' self) in
           case clone_subst_to self ret subst_from w0 of (subst_to, w1) \<Rightarrow>
           (case clone_placeholders self (zip subst_from subst_to) ret of
             Inl e \<Rightarrow> (Inl e, w1)
           | Inr ret1 \<Rightarrow>
               (let n_constr = clone_n_constr self;
                    res = substitute (clone_orig self) subst_from subst_to;
                    ret2 = ret1\<lparr>states := states self, controls := controls self,
                                algebraics := algebraics self,
                                parameters := parameters self, variables := variables self,
                                offsets' := offsets' self, param_vals' := param_vals' self,
                                state_der' := state_der' self, alg' := alg' self,
                                state_next' := state_next' self,
                                objective' := res ! n_constr,
                                constraints' :=
                                  clone_constraints merge (constraints' self)
                                    (map fst (constraints' self)) (take n_constr res) [],
                                initial' :=
                                  dict_of (zip (drop (n_constr + 1) res) (map snd (initial' self)))\<rparr> in
                case check_free_time ret2 frame w1 of
                  (Inl e, ret3, w2) \<Rightarrow> (Inl e, w2)
                | (Inr _, ret3, w2) \<Rightarrow>
                    (let ret4 = (if kw_T kw = None then ret3\<lparr>T' := T' self\<rparr> else ret3);
                         ret5 = (if kw_t0 kw = None then ret4\<lparr>t0' := t0' self\<rparr> else ret4) in
                     (Inr (ret5\<lparr>t' := t' self, method' := method' self,
                                is_transcribed' := Some False\<rparr>), w2))))))"

text \<open>
  \<^verbatim>\<open>stage\<close> creates a child of \<open>self\<close>, from a template or from scratch. The child is
  entered in the parent's list as it is when created.
\<close>

definition stage ::
  "Method \<Rightarrow> meta \<Rightarrow> (meta \<Rightarrow> meta) \<Rightarrow> stage_tree \<Rightarrow> stage_tree option \<Rightarrow> kwargs \<Rightarrow> world
     \<Rightarrow> (py_error + stage_tree) \<times> stage_tree \<times> world" where
  "stage dm frame merge self template kw w =
     (case (case template of
              Some tpl \<Rightarrow>
                (if kw_clone kw \<noteq> None then (Inl TypeError, w)
                 else clone dm frame merge (node tpl) (Some (Parent (master' (node self))))
                        (kw\<lparr>kw_clone := Some True\<rparr>) w)
            | None \<Rightarrow> Stage_kw dm frame (Some (Parent (master' (node self)))) kw w) of
        (Inl e, w1) \<Rightarrow> (Inl e, self, w1)
      | (Inr s, w1) \<Rightarrow>
          (Inr (Node s []), Node (node self) (children self @ [Node s []]),
           set_transcribed (node self) False w1))"

subsection \<open>Sampling on a grid\<close>

definition parse_grid :: "string \<Rightarrow> string \<times> bool \<times> bool" where
  "parse_grid grid =
     (let include_last = True;
          include_first = True;
          (grid1, include_last1) =
            (if grid \<noteq> [] \<and> hd grid = CHR ''-'' then (tl grid, False)
             else (grid, include_last));
          (grid2, include_last2) =
            (if grid1 \<noteq> [] \<and> last grid1 = CHR ''-'' then (butlast grid1, False)
             else (grid1, include_last1)) in
      (grid2, include_first, include_last2))"

text \<open>
  The value blocks \<^verbatim>\<open>hcat(sub_expr)\<close> puts side by side are kept as the list
  \<open>sub_expr\<close>; \<^verbatim>\<open>DM.nan(MX(expr).shape)\<close> is \<open>MXNan (shape expr)\<close>.
\<close>

fun control_points :: "Method \<Rightarrow> mx \<Rightarrow> int list \<Rightarrow> py_error + mx list" where
  "control_points m expr [] = Inr []"
| "control_points m expr (k # ks) =
     (case (case eval_at_control m expr k of
              Inl IndexError \<Rightarrow> Inr (MXNan (shape expr))
            | Inl e \<Rightarrow> Inl e
            | Inr r \<Rightarrow> Inr r) of
        Inl e \<Rightarrow> Inl e
      | Inr r \<Rightarrow>
          (case control_points m expr ks of
             Inl e \<Rightarrow> Inl e
           | Inr rs \<Rightarrow> Inr (r # rs)))"

definition grid_control ::
  "Stage \<Rightarrow> mx \<Rightarrow> string \<Rightarrow> bool \<Rightarrow> bool \<Rightarrow> py_error + (mx list \<times> mx list)" where
  "grid_control stg expr grid include_first include_last =
     (let ks0 = [1 .. N (method' stg) - 1];
          ks1 = (if include_first then [0] @ ks0 else ks0);
          ks = (if include_last then ks1 @ [- 1] else ks1) in
      case control_points (method' stg) expr ks of
        Inl e \<Rightarrow> Inl e
      | Inr sub_expr \<Rightarrow> Inr (control_grid (method' stg), sub_expr))"

text \<open>\<^verbatim>\<open>xs[k]\<close> of a Python list; a negative index counts from the end.\<close>

definition list_item :: "'a list \<Rightarrow> int \<Rightarrow> py_error + 'a" where
  "list_item xs k =
     (if 0 \<le> k \<and> k < int (length xs) then Inr (xs ! nat k)
      else if k < 0 \<and> - int (length xs) \<le> k then Inr (xs ! nat (int (length xs) + k))
      else Inl IndexError)"

fun integrator_steps :: "Method \<Rightarrow> mx \<Rightarrow> int \<Rightarrow> int list \<Rightarrow> py_error + mx list" where
  "integrator_steps m expr k [] = Inr []"
| "integrator_steps m expr k (l # ls) =
     (case eval_at_integrator m expr k l of
        Inl e \<Rightarrow> Inl e
      | Inr r \<Rightarrow>
          (case integrator_steps m expr k ls of
             Inl e \<Rightarrow> Inl e
           | Inr rs \<Rightarrow> Inr (r # rs)))"

fun integrator_intervals :: "Method \<Rightarrow> mx \<Rightarrow> int list \<Rightarrow> py_error + (mx list \<times> mx list)" where
  "integrator_intervals m expr [] = Inr ([], [])"
| "integrator_intervals m expr (k # ks) =
     (case integrator_steps m expr k [0 .. M m - 1] of
        Inl e \<Rightarrow> Inl e
      | Inr rs \<Rightarrow>
          (case list_item (integrator_grid m) k of
             Inl e \<Rightarrow> Inl e
           | Inr tk \<Rightarrow>
               (case integrator_intervals m expr ks of
                  Inl e \<Rightarrow> Inl e
                | Inr (time, sub_expr) \<Rightarrow> Inr (tk # time, rs @ sub_expr))))"

definition grid_integrator ::
  "Stage \<Rightarrow> mx \<Rightarrow> string \<Rightarrow> bool \<Rightarrow> bool \<Rightarrow> py_error + (mx list \<times> mx list)" where
  "grid_integrator stg expr grid include_first include_last =
     (if \<not> include_first then Inl AssertionError
      else
        (case integrator_intervals (method' stg) expr [0 .. N (method' stg) - 1] of
           Inl e \<Rightarrow> Inl e
         | Inr (time, sub_expr) \<Rightarrow>
             (if include_last then
                (case eval_at_control (method' stg) expr (- 1) of
                   Inl e \<Rightarrow> Inl e
                 | Inr r \<Rightarrow> Inr (time, sub_expr @ [r]))
              else Inr (time, sub_expr))))"

text \<open>
  \<^verbatim>\<open>sample\<close>, from the line after \<^verbatim>\<open>self.master._transcribe()\<close>: the tree is
  transcribed and \<open>placeholders\<close> is the master's substitution function (the master
  class is not among the sources). The two samplers no claim is about, the fine grid and
  the integrator roots, are the parameters \<open>fine\<close> and \<open>roots\<close>. A keyword given twice,
  or one the callee does not have, is a \<^verbatim>\<open>TypeError\<close>.
\<close>

type_synonym sampled = "py_error + (mx list \<times> mx list)"

definition unknown_grid :: "string \<Rightarrow> string" where
  "unknown_grid grid =
     ''Unknown grid option: '' @ grid @ [CHR 0x0A]
     @ ''Options are: '' @ apostrophe @ ''control'' @ apostrophe @ '' or '' @ apostrophe
     @ ''integrator'' @ apostrophe @ '' with an optional extra refine=<int> argument.''"

definition sample ::
  "(mx \<Rightarrow> mx) \<Rightarrow> (Stage \<Rightarrow> mx \<Rightarrow> int \<Rightarrow> bool \<Rightarrow> bool \<Rightarrow> sampled)
     \<Rightarrow> (Stage \<Rightarrow> mx \<Rightarrow> int option \<Rightarrow> bool \<Rightarrow> bool \<Rightarrow> sampled)
     \<Rightarrow> Stage \<Rightarrow> mx \<Rightarrow> string \<Rightarrow> int option \<Rightarrow> sampled" where
  "sample placeholders fine roots s expr grid0 refine =
     (if \<not> master' s then Inl AttributeError
      else
        (case parse_grid grid0 of (grid, include_first, include_last) \<Rightarrow>
           (case (if grid = ''control'' then
                    (if refine \<noteq> None then Inl TypeError
                     else grid_control s expr grid include_first include_last)
                  else if grid = ''control-'' then Inl TypeError
                  else if grid = ''integrator'' then
                    (case refine of
                       Some n \<Rightarrow> fine s expr n include_first include_last
                     | None \<Rightarrow> grid_integrator s expr grid include_first include_last)
                  else if grid = ''integrator_roots'' then
                    roots s expr refine include_first include_last
                  else Inl (Exception (unknown_grid grid))) of
              Inl e \<Rightarrow> Inl e
            | Inr (time, res) \<Rightarrow> Inr (map placeholders time, map placeholders res))))"

subsection \<open>A stage to run things on\<close>

text \<open>
  A method with three control intervals of two steps each, whose evaluators have no
  value at the final boundary (as for a control signal); a master that is transcribed;
  the stage \<^verbatim>\<open>Stage(parent)\<close> under it; and that stage with one state \<open>x\<close> of
  derivative \<open>-x\<close>.
\<close>

definition demo_method :: Method where
  "demo_method =
     \<lparr>N = 3, M = 2, control_grid = [MXConst 0, MXConst 1, MXConst 2, MXConst 3],
      integrator_grid = [MXConst 0, MXConst 1, MXConst 2],
      eval_at_control =
        (\<lambda>e k. if 0 \<le> k \<and> k < 3 then Inr (MXBin Plus e (MXConst (real_of_int k)))
               else Inl IndexError),
      eval_at_integrator =
        (\<lambda>e k l. if 0 \<le> k \<and> k < 3 \<and> 0 \<le> l \<and> l < 2
                 then Inr (MXBin Plus e (MXConst (real_of_int (2 * k + l))))
                 else Inl IndexError)\<rparr>"

text \<open>The same method, but with a value at the final boundary and none at the second
  step of an interval.\<close>

definition demo_method_short :: Method where
  "demo_method_short =
     demo_method\<lparr>eval_at_control := (\<lambda>e k. Inr e),
                  eval_at_integrator := (\<lambda>e k l. if l = 0 then Inr e else Inl IndexError)\<rparr>"

text \<open>Stand-ins for the two samplers that are parameters of \<open>sample\<close>.\<close>

definition no_fine :: "Stage \<Rightarrow> mx \<Rightarrow> int \<Rightarrow> bool \<Rightarrow> bool \<Rightarrow> sampled" where
  "no_fine s e n inc_first inc_last = Inl (Exception ''fine grid'')"

definition no_roots :: "Stage \<Rightarrow> mx \<Rightarrow> int option \<Rightarrow> bool \<Rightarrow> bool \<Rightarrow> sampled" where
  "no_roots s e n inc_first inc_last = Inl (Exception ''integrator roots'')"

definition demo_world :: world where
  "demo_world = \<lparr>fresh = 3, master_is_transcribed = True, master_placeholders_dirty = False,
                  method_set_initial_calls = []\<rparr>"

definition demo_stage :: Stage where
  "demo_stage =
     (blank demo_method (Some (Parent True)) (Time 0) (Time 1)
        \<lparr>sym_id = 0, sym_name = ''t'', sym_shape = (1, 1)\<rparr>)
     \<lparr>placeholders' :=
        [(\<lparr>sym_id = 1, sym_name = ''r_T'', sym_shape = (1, 1)\<rparr>, MXConst 0),
         (\<lparr>sym_id = 2, sym_name = ''r_t0'', sym_shape = (1, 1)\<rparr>, MXConst 0)],
      placeholder_callbacks' :=
        [(\<lparr>sym_id = 1, sym_name = ''r_T'', sym_shape = (1, 1)\<rparr>, ''T''),
         (\<lparr>sym_id = 2, sym_name = ''r_t0'', sym_shape = (1, 1)\<rparr>, ''t0'')],
      public_T' := MXSym \<lparr>sym_id = 1, sym_name = ''r_T'', sym_shape = (1, 1)\<rparr>,
      public_t0' := MXSym \<lparr>sym_id = 2, sym_name = ''r_t0'', sym_shape = (1, 1)\<rparr>,
      tf' := MXBin Plus (MXSym \<lparr>sym_id = 1, sym_name = ''r_T'', sym_shape = (1, 1)\<rparr>)
                        (MXSym \<lparr>sym_id = 2, sym_name = ''r_t0'', sym_shape = (1, 1)\<rparr>)\<rparr>"

definition demo_x :: mx where
  "demo_x = MXSym \<lparr>sym_id = 3, sym_name = ''x'', sym_shape = (1, 1)\<rparr>"

definition demo_continuous :: Stage where
  "demo_continuous =
     demo_stage\<lparr>states := [\<lparr>sym_id = 3, sym_name = ''x'', sym_shape = (1, 1)\<rparr>],
                state_der' := [(demo_x, MXNeg demo_x)]\<rparr>"

definition demo_discrete :: Stage where
  "demo_discrete =
     demo_stage\<lparr>states := [\<lparr>sym_id = 3, sym_name = ''x'', sym_shape = (1, 1)\<rparr>],
                state_next' := [(demo_x, MXNeg demo_x)]\<rparr>"

definition demo_short :: Stage where
  "demo_short = demo_continuous\<lparr>method' := demo_method_short\<rparr>"

text \<open>
  A template with free start time and free horizon, as the calls
  \<^verbatim>\<open>s = Stage(parent, t0=FreeTime(0), T=FreeTime(2))\<close>, \<^verbatim>\<open>x = s.state()\<close>,
  \<^verbatim>\<open>s.parameter()\<close>, \<^verbatim>\<open>s.add_objective(s.at_tf(x))\<close>, \<^verbatim>\<open>s.subject_to(x <= 1)\<close>,
  \<^verbatim>\<open>s.set_initial(x, 0)\<close> leave it: the constructor has made the variables number 3
  (start time) and 4 (horizon); \<open>x\<close> is number 5, the parameter 6, the placeholder 7.
\<close>

definition demo_template :: Stage where
  "demo_template =
     demo_stage
       \<lparr>states := [\<lparr>sym_id = 5, sym_name = ''x'', sym_shape = (1, 1)\<rparr>],
        parameters := (\<lambda>_. [])('''' := [\<lparr>sym_id = 6, sym_name = ''p'', sym_shape = (1, 1)\<rparr>]),
        variables := (\<lambda>_. [])('''' := [\<lparr>sym_id = 3, sym_name = ''v'', sym_shape = (1, 1)\<rparr>,
                                        \<lparr>sym_id = 4, sym_name = ''v'', sym_shape = (1, 1)\<rparr>]),
        constraints' :=
          [(''point'',
            [(MXBin GreaterEq (MXSym \<lparr>sym_id = 4, sym_name = ''v'', sym_shape = (1, 1)\<rparr>)
                (MXConst 0), ''m'',
              \<lparr>grid_arg = ''point'', include_last_arg = True, include_first_arg = True\<rparr>)]),
           (''control'',
            [(MXBin LessEq (MXSym \<lparr>sym_id = 5, sym_name = ''x'', sym_shape = (1, 1)\<rparr>)
                (MXConst 1), ''m'',
              \<lparr>grid_arg = ''control'', include_last_arg = True, include_first_arg = True\<rparr>)])],
        objective' :=
          MXBin Plus (MXConst 0) (MXSym \<lparr>sym_id = 7, sym_name = ''r_at_tf'', sym_shape = (1, 1)\<rparr>),
        initial' :=
          [(MXSym \<lparr>sym_id = 3, sym_name = ''v'', sym_shape = (1, 1)\<rparr>, Num 0),
           (MXSym \<lparr>sym_id = 4, sym_name = ''v'', sym_shape = (1, 1)\<rparr>, Num 2),
           (MXSym \<lparr>sym_id = 5, sym_name = ''x'', sym_shape = (1, 1)\<rparr>, Num 0)],
        placeholders' :=
          placeholders' demo_stage
          @ [(\<lparr>sym_id = 7, sym_name = ''r_at_tf'', sym_shape = (1, 1)\<rparr>,
              MXSym \<lparr>sym_id = 5, sym_name = ''x'', sym_shape = (1, 1)\<rparr>)],
        placeholder_callbacks' :=
          placeholder_callbacks' demo_stage
          @ [(\<lparr>sym_id = 7, sym_name = ''r_at_tf'', sym_shape = (1, 1)\<rparr>, ''at_tf'')],
        t0' := TimeExpr (MXSym \<lparr>sym_id = 3, sym_name = ''v'', sym_shape = (1, 1)\<rparr>),
        T' := TimeExpr (MXSym \<lparr>sym_id = 4, sym_name = ''v'', sym_shape = (1, 1)\<rparr>)\<rparr>"

definition demo_world8 :: world where
  "demo_world8 = demo_world\<lparr>fresh := 8\<rparr>"

definition demo_world4 :: world where
  "demo_world4 = demo_world\<lparr>fresh := 4\<rparr>"

subsection \<open>The signal test in the words of claim C6\<close>

text \<open>
  Claim C6 calls a constraint a signal when it depends on a state, a control, an
  algebraic, the time, or a variable tagged \<^verbatim>\<open>control\<close> or \<^verbatim>\<open>states\<close>. This is that
  test, written from the claim and compared with \<open>is_signal\<close> of the source below.
\<close>

definition is_signal_spec :: "Stage \<Rightarrow> mx \<Rightarrow> bool" where
  "is_signal_spec s expr =
     depends_on expr
       (states s @ controls s @ algebraics s @ [t' s]
        @ variables s ''control'' @ variables s ''states'')"


section \<open>Properties\<close>

subsection \<open>The demonstration stage is what the constructor and the setters build\<close>

lemma demo_stage_built:
  "Stage_init demo_method frame (Some (Parent True)) (Time 0) (Time 1) False
     (demo_world\<lparr>fresh := 0\<rparr>)
   = (Inr demo_stage, demo_world\<lparr>master_placeholders_dirty := True\<rparr>)"
  by (simp add: Stage_init_def MX_sym_def create_placeholder_expr_def blank_def
      check_free_time_def demo_stage_def demo_world_def)

lemma demo_continuous_built:
  "(case state demo_stage 1 1 False demo_world of (x, s1, w1) \<Rightarrow>
      (x, set_der s1 x (MXNeg x) w1))
   = (demo_x, Inr (), demo_continuous, demo_world4\<lparr>master_is_transcribed := False\<rparr>)"
  by (simp add: state_def set_der_def MX_sym_def set_transcribed_def demo_stage_def blank_def
      demo_world_def demo_world4_def demo_continuous_def demo_x_def)

subsection \<open>Dictionaries\<close>

lemma update_ne: "AList.update k v al \<noteq> []"
  by (cases al) auto

lemma map_of_update_same: "map_of (AList.update k v al) k = Some v"
  by (simp add: update_conv')

subsection \<open>Derivative and next-state rules\<close>

text \<open>
  Claim C10. \<^verbatim>\<open>set_next\<close> on a stage that already has a derivative rule stores the
  next-state entry first and fails on the assertion after it: the call raises
  \<^verbatim>\<open>AssertionError\<close> and leaves a stage whose derivative and next-state dictionaries
  are both non-empty, the new entry included. \<^verbatim>\<open>set_der\<close> on a stage that has a
  next-state rule asserts before it stores: it raises and leaves the stage as it was.
  Both clear the master's transcribed flag before they fail.
\<close>

theorem set_next_fails_after_insert:
  "(state_der' s \<noteq> [] \<longrightarrow>
      set_next s st nx w =
        (Inl AssertionError, s\<lparr>state_next' := AList.update st nx (state_next' s)\<rparr>,
         set_transcribed s False w)
      \<and> state_der' (fst (snd (set_next s st nx w))) \<noteq> []
      \<and> state_next' (fst (snd (set_next s st nx w))) \<noteq> []
      \<and> map_of (state_next' (fst (snd (set_next s st nx w)))) st = Some nx)
   \<and> (state_next' s \<noteq> [] \<longrightarrow>
      set_der s st d w = (Inl AssertionError, s, set_transcribed s False w))"
  by (simp add: set_next_def set_der_def update_ne map_of_update_same)

theorem set_next_fails_after_insert_witness:
  "state_der' demo_continuous \<noteq> []
   \<and> fst (set_next demo_continuous demo_x (MXNeg demo_x) demo_world4) = Inl AssertionError
   \<and> state_der' (fst (snd (set_next demo_continuous demo_x (MXNeg demo_x) demo_world4))) \<noteq> []
   \<and> state_next' (fst (snd (set_next demo_continuous demo_x (MXNeg demo_x) demo_world4)))
       = [(demo_x, MXNeg demo_x)]
   \<and> state_next' demo_discrete \<noteq> []
   \<and> set_der demo_discrete demo_x (MXNeg demo_x) demo_world4
       = (Inl AssertionError, demo_discrete, demo_world4\<lparr>master_is_transcribed := False\<rparr>)"
  using set_next_fails_after_insert [of demo_continuous demo_x "MXNeg demo_x" demo_world4]
    set_next_fails_after_insert [of demo_discrete demo_x "MXNeg demo_x" demo_world4 "MXNeg demo_x"]
  by (simp add: demo_continuous_def demo_discrete_def demo_stage_def blank_def
      set_transcribed_def)

text \<open>
  Claim C5, on the code: a fresh stage, one state \<open>x\<close>, \<^verbatim>\<open>set_der(x, -x)\<close> and then
  \<^verbatim>\<open>set_next(x, -x)\<close>. The second call fails, as the claim says, but the stage it
  leaves holds both a derivative and a next-state rule for \<open>x\<close>.
\<close>

theorem set_der_then_set_next_leaves_both:
  "(case state demo_stage 1 1 False demo_world of (x, s1, w1) \<Rightarrow>
     case set_der s1 x (MXNeg x) w1 of (r2, s2, w2) \<Rightarrow>
     case set_next s2 x (MXNeg x) w2 of (r3, s3, w3) \<Rightarrow>
       r2 = Inr () \<and> r3 = Inl AssertionError
       \<and> state_der' s3 = [(x, MXNeg x)] \<and> state_next' s3 = [(x, MXNeg x)])"
  by (simp add: state_def set_der_def set_next_def MX_sym_def set_transcribed_def
      demo_stage_def blank_def demo_world_def)

subsection \<open>Offsets\<close>

lemma py_int_integral: "(real_of_int (py_int k) = k) = (k \<in> \<int>)"
  unfolding py_int_def by (auto simp: Ints_def)

lemma py_int_of_int: "py_int (real_of_int n) = n"
  by (simp add: py_int_def)

lemma update_fresh_key: "k \<notin> fst ` set al \<Longrightarrow> AList.update k v al = al @ [(k, v)]"
  by (induction al) auto

text \<open>
  Claim C9. \<^verbatim>\<open>offset(expr, k)\<close> with a \<open>k\<close> that is not an integer raises
  \<^verbatim>\<open>Exception("Integer expected")\<close> and leaves the stage and the world as they
  were: nothing is recorded and no symbol is made. With an integer \<open>k = n\<close> it makes
  one new symbol named \<^verbatim>\<open>offset\<close> of the shape of \<open>expr\<close>, returns it, and records
  \<open>(expr, n)\<close> under it in the offsets map; when every key already in the map is older
  than the symbol counter, that is a new entry at the end. \<^verbatim>\<open>next(expr)\<close> is
  \<^verbatim>\<open>offset(expr, 1)\<close> and \<^verbatim>\<open>prev(expr)\<close> is \<^verbatim>\<open>offset(expr, -1)\<close>.
\<close>

theorem offset_integer_or_raise:
  "(k \<notin> \<int> \<longrightarrow> offset s expr k w = (Inl (Exception ''Integer expected''), s, w))
   \<and> (\<forall>n. k = real_of_int n \<longrightarrow>
        offset s expr k w =
          (Inr (MXSym \<lparr>sym_id = fresh w, sym_name = ''offset'', sym_shape = shape expr\<rparr>),
           s\<lparr>offsets' :=
               AList.update \<lparr>sym_id = fresh w, sym_name = ''offset'', sym_shape = shape expr\<rparr>
                 (expr, n) (offsets' s)\<rparr>,
           w\<lparr>fresh := Suc (fresh w)\<rparr>)
        \<and> map_of (offsets' (fst (snd (offset s expr k w))))
             \<lparr>sym_id = fresh w, sym_name = ''offset'', sym_shape = shape expr\<rparr> = Some (expr, n)
        \<and> ((\<forall>r \<in> fst ` set (offsets' s). sym_id r < fresh w) \<longrightarrow>
             offsets' (fst (snd (offset s expr k w)))
               = offsets' s
                 @ [(\<lparr>sym_id = fresh w, sym_name = ''offset'', sym_shape = shape expr\<rparr>, (expr, n))]))
   \<and> next_stage s expr w = offset s expr 1 w
   \<and> prev s expr w = offset s expr (- 1) w"
proof (intro conjI allI impI)
  assume "k \<notin> \<int>"
  then show "offset s expr k w = (Inl (Exception ''Integer expected''), s, w)"
    by (simp add: offset_def py_int_integral)
next
  fix n assume k: "k = real_of_int n"
  show eq: "offset s expr k w =
          (Inr (MXSym \<lparr>sym_id = fresh w, sym_name = ''offset'', sym_shape = shape expr\<rparr>),
           s\<lparr>offsets' :=
               AList.update \<lparr>sym_id = fresh w, sym_name = ''offset'', sym_shape = shape expr\<rparr>
                 (expr, n) (offsets' s)\<rparr>,
           w\<lparr>fresh := Suc (fresh w)\<rparr>)"
    by (simp add: offset_def k py_int_of_int MX_sym_def)
  show "map_of (offsets' (fst (snd (offset s expr k w))))
             \<lparr>sym_id = fresh w, sym_name = ''offset'', sym_shape = shape expr\<rparr> = Some (expr, n)"
    by (simp add: eq update_conv')
  assume old: "\<forall>r \<in> fst ` set (offsets' s). sym_id r < fresh w"
  have "\<lparr>sym_id = fresh w, sym_name = ''offset'', sym_shape = shape expr\<rparr> \<notin> fst ` set (offsets' s)"
    using old by force
  then show "offsets' (fst (snd (offset s expr k w)))
               = offsets' s
                 @ [(\<lparr>sym_id = fresh w, sym_name = ''offset'', sym_shape = shape expr\<rparr>, (expr, n))]"
    by (simp add: eq update_fresh_key)
next
  show "next_stage s expr w = offset s expr 1 w" by (simp add: next_stage_def)
  show "prev s expr w = offset s expr (- 1) w" by (simp add: prev_def)
qed

theorem offset_integer_or_raise_witness:
  "(3 / 2 :: real) \<notin> \<int>
   \<and> offset demo_continuous demo_x (3 / 2) demo_world4
       = (Inl (Exception ''Integer expected''), demo_continuous, demo_world4)
   \<and> offsets' (fst (snd (offset demo_continuous demo_x 1 demo_world4)))
       = [(\<lparr>sym_id = 4, sym_name = ''offset'', sym_shape = (1, 1)\<rparr>, (demo_x, 1))]
   \<and> fst (prev demo_continuous demo_x demo_world4)
       = Inr (MXSym \<lparr>sym_id = 4, sym_name = ''offset'', sym_shape = (1, 1)\<rparr>)"
proof -
  have frac: "(3 / 2 :: real) \<notin> \<int>"
  proof
    assume "(3 / 2 :: real) \<in> \<int>"
    then obtain n :: int where "(3 / 2 :: real) = of_int n" by (auto simp: Ints_def)
    then have "(3::real) = of_int (2 * n)" by simp
    then have "(3::int) = 2 * n" by (metis of_int_eq_iff of_int_numeral)
    then show False by presburger
  qed
  have a: "offset demo_continuous demo_x (3 / 2) demo_world4
       = (Inl (Exception ''Integer expected''), demo_continuous, demo_world4)"
    using frac offset_integer_or_raise [of "3 / 2" demo_continuous demo_x demo_world4]
    by simp
  have b: "offsets' (fst (snd (offset demo_continuous demo_x 1 demo_world4)))
       = [(\<lparr>sym_id = 4, sym_name = ''offset'', sym_shape = (1, 1)\<rparr>, (demo_x, 1))]"
    using offset_integer_or_raise [of 1 demo_continuous demo_x demo_world4,
        THEN conjunct2, THEN conjunct1, THEN spec, of 1]
    by (simp add: demo_continuous_def demo_stage_def blank_def demo_world4_def demo_world_def
        demo_x_def)
  have c: "fst (prev demo_continuous demo_x demo_world4)
       = Inr (MXSym \<lparr>sym_id = 4, sym_name = ''offset'', sym_shape = (1, 1)\<rparr>)"
    using offset_integer_or_raise [of "- 1" demo_continuous demo_x demo_world4,
        THEN conjunct2, THEN conjunct1, THEN spec, of "- 1"]
      offset_integer_or_raise [of "- 1" demo_continuous demo_x demo_world4,
        THEN conjunct2, THEN conjunct2, THEN conjunct2]
    by (simp add: demo_world4_def demo_world_def demo_x_def)
  show ?thesis using frac a b c by simp
qed

subsection \<open>Integrals and sums\<close>

text \<open>
  Claim C1 as stated fails twice. On a stage with a next-state rule,
  \<^verbatim>\<open>integral(expr, grid='inf')\<close> raises: it sets the derivative of its quadrature state
  with \<^verbatim>\<open>set_der\<close>, which asserts that the stage has no next-state rule. And
  \<^verbatim>\<open>sum(expr, grid='inf')\<close> makes no quadrature state: it returns a
  \<^verbatim>\<open>sum_control\<close> placeholder whatever the grid.
\<close>

theorem integral_sum_counterexample:
  "fst (integral demo_discrete demo_x ''inf'' demo_world4) = Inl AssertionError
   \<and> (case sum_stage demo_continuous demo_x ''inf'' demo_world4 of (r, s1, w1) \<Rightarrow>
        r = MXSym \<lparr>sym_id = 4, sym_name = ''r_sum_control'', sym_shape = (1, 1)\<rparr>
        \<and> qstates s1 = [] \<and> state_der' s1 = state_der' demo_continuous
        \<and> map_of (placeholder_callbacks' s1)
             \<lparr>sym_id = 4, sym_name = ''r_sum_control'', sym_shape = (1, 1)\<rparr> = Some ''sum_control'')"
  by (simp add: integral_def sum_stage_def state_def set_der_def MX_sym_def set_transcribed_def
      create_placeholder_expr_def demo_discrete_def demo_continuous_def demo_stage_def blank_def
      demo_world4_def demo_world_def demo_x_def)

text \<open>
  Claim C1, amended. On a stage without next-state rules,
  \<^verbatim>\<open>integral(expr, grid='inf')\<close> appends a new scalar quadrature state \<open>I\<close>, stores
  \<open>expr\<close> as the derivative of \<open>I\<close>, and returns a new \<^verbatim>\<open>at_tf\<close> placeholder whose
  source expression is \<open>I\<close>. \<^verbatim>\<open>integral\<close> with any other grid returns an
  \<^verbatim>\<open>integral_control\<close> placeholder on \<open>expr\<close>, and \<^verbatim>\<open>sum(expr, grid='control')\<close>
  a \<^verbatim>\<open>sum_control\<close> placeholder on \<open>expr\<close>. A placeholder of a kind is a new symbol
  \<^verbatim>\<open>r_<kind>\<close> of the shape of its expression, entered in the registry with that
  expression and that kind.
\<close>

theorem integral_and_sum_placeholders:
  "(state_next' s = [] \<longrightarrow>
      (let I = \<lparr>sym_id = fresh w, sym_name = ''x'', sym_shape = (1, 1)\<rparr>;
           r = \<lparr>sym_id = Suc (fresh w), sym_name = ''r_at_tf'', sym_shape = (1, 1)\<rparr> in
       integral s expr ''inf'' w =
         (Inr (MXSym r),
          s\<lparr>qstates := qstates s @ [I],
            state_der' := AList.update (MXSym I) expr (state_der' s),
            placeholders' := AList.update r (MXSym I) (placeholders' s),
            placeholder_callbacks' := AList.update r ''at_tf'' (placeholder_callbacks' s)\<rparr>,
          (if master' s
           then w\<lparr>fresh := Suc (Suc (fresh w)), master_is_transcribed := False,
                  master_placeholders_dirty := True\<rparr>
           else w\<lparr>fresh := Suc (Suc (fresh w))\<rparr>))))
   \<and> (grid \<noteq> ''inf'' \<longrightarrow>
        integral s expr grid w =
          (case create_placeholder_expr s expr ''integral_control'' w of
             (r, s1, w1) \<Rightarrow> (Inr r, s1, w1)))
   \<and> sum_stage s expr ''control'' w = create_placeholder_expr s expr ''sum_control'' w
   \<and> (let r = \<lparr>sym_id = fresh w, sym_name = ''r_'' @ kind, sym_shape = shape expr\<rparr> in
       create_placeholder_expr s expr kind w =
         (MXSym r,
          s\<lparr>placeholders' := AList.update r expr (placeholders' s),
            placeholder_callbacks' := AList.update r kind (placeholder_callbacks' s)\<rparr>,
          (if master' s then w\<lparr>fresh := Suc (fresh w), master_placeholders_dirty := True\<rparr>
           else w\<lparr>fresh := Suc (fresh w)\<rparr>))
       \<and> map_of (placeholders' (fst (snd (create_placeholder_expr s expr kind w)))) r = Some expr
       \<and> map_of (placeholder_callbacks' (fst (snd (create_placeholder_expr s expr kind w)))) r
           = Some kind)"
  by (simp add: integral_def sum_stage_def state_def set_der_def at_tf_def MX_sym_def
      set_transcribed_def create_placeholder_expr_def Let_def update_conv')

theorem integral_and_sum_placeholders_witness:
  "state_next' demo_continuous = []
   \<and> fst (integral demo_continuous demo_x ''inf'' demo_world4)
       = Inr (MXSym \<lparr>sym_id = 5, sym_name = ''r_at_tf'', sym_shape = (1, 1)\<rparr>)
   \<and> qstates (fst (snd (integral demo_continuous demo_x ''inf'' demo_world4)))
       = [\<lparr>sym_id = 4, sym_name = ''x'', sym_shape = (1, 1)\<rparr>]
   \<and> ''control'' \<noteq> ''inf''
   \<and> fst (integral demo_continuous demo_x ''control'' demo_world4)
       = Inr (MXSym \<lparr>sym_id = 4, sym_name = ''r_integral_control'', sym_shape = (1, 1)\<rparr>)"
proof -
  have n: "state_next' demo_continuous = []"
    by (simp add: demo_continuous_def demo_stage_def blank_def)
  have g: "''control'' \<noteq> ''inf''" by simp
  have a: "fst (integral demo_continuous demo_x ''inf'' demo_world4)
       = Inr (MXSym \<lparr>sym_id = 5, sym_name = ''r_at_tf'', sym_shape = (1, 1)\<rparr>)"
    and b: "qstates (fst (snd (integral demo_continuous demo_x ''inf'' demo_world4)))
       = [\<lparr>sym_id = 4, sym_name = ''x'', sym_shape = (1, 1)\<rparr>]"
    using n integral_and_sum_placeholders [of demo_continuous demo_world4 demo_x, THEN conjunct1]
    by (simp_all add: Let_def demo_world4_def demo_world_def demo_continuous_def demo_stage_def blank_def)
  have c: "fst (integral demo_continuous demo_x ''control'' demo_world4)
       = Inr (MXSym \<lparr>sym_id = 4, sym_name = ''r_integral_control'', sym_shape = (1, 1)\<rparr>)"
    using g integral_and_sum_placeholders [of demo_continuous demo_world4 demo_x "''control''"
        "''integral_control''"]
    by (simp add: Let_def demo_world4_def demo_world_def demo_x_def split: prod.splits)
  show ?thesis using n g a b c by simp
qed

subsection \<open>Construction\<close>

lemmas construct_defs =
  Stage_init_def MX_sym_def create_placeholder_expr_def blank_def check_free_time_def
  variable_def set_T_def set_t0_def subject_to_def set_initial_def set_transcribed_def
  is_signal_def depends_on_def x_vec_def u_vec_def z_vec_def opti_in_str_def grids_def
  is_transcribed_def dd_get_def

lemma Stage_init_returns: "\<exists>s w'. Stage_init dm frame par t0v Tv cl w = (Inr s, w')"
  by (cases t0v; cases Tv; cases cl) (simp_all add: construct_defs Let_def)

lemma Stage_kw_returns: "\<exists>s w'. Stage_kw dm frame par kw w = (Inr s, w')"
  by (simp add: Stage_kw_def Stage_init_returns)

text \<open>
  Claim C8 as stated fails when the constructor is given \<^verbatim>\<open>clone=True\<close>, as
  \<^verbatim>\<open>stage(template, ...)\<close> gives it: \<^verbatim>\<open>__init__\<close> then skips \<^verbatim>\<open>_check_free_time\<close>.
  \<^verbatim>\<open>Stage(parent, T=FreeTime(2), clone=True)\<close> returns a stage whose horizon still is the
  sentinel, with no variable, no constraint and no initial guess, and the master's
  transcription is not marked stale.
\<close>

theorem constructor_clone_flag_counterexample:
  "(case Stage_init demo_method ''f'' (Some (Parent True)) (Time 0) (FreeTime (Num 2)) True
           demo_world of
      (Inr s, w') \<Rightarrow>
        T' s = FreeTime (Num 2) \<and> variables s '''' = [] \<and> constraints' s = []
        \<and> initial' s = [] \<and> master_is_transcribed w'
    | (Inl e, w') \<Rightarrow> False)"
  by (simp add: Stage_init_def MX_sym_def create_placeholder_expr_def blank_def demo_world_def)

text \<open>
  Claim C8, amended. \<^verbatim>\<open>Stage(parent, t0, T)\<close> always returns a stage. With the
  \<^verbatim>\<open>clone\<close> flag false (its default): when \<open>T\<close> is \<^verbatim>\<open>FreeTime(h)\<close>, the stage's
  horizon is a symbol \<open>v\<close> made during the construction, \<open>v\<close> is one of the stage's
  variables, the only constraint is \<open>v \<ge> 0\<close> (a point constraint), and the initial
  guess of \<open>v\<close> is \<open>h\<close>; when \<open>t0\<close> is \<^verbatim>\<open>FreeTime(h)\<close>, the start time is such a
  variable with initial guess \<open>h\<close>, and no constraint mentions it; with a fixed \<open>T\<close>
  the stage has no constraint at all. With the \<^verbatim>\<open>clone\<close> flag true the constructor
  replaces nothing: start time and horizon are the values given, sentinels included, and
  the stage has no variable, no constraint and no initial guess.
\<close>

theorem free_time_at_construction:
  "(\<exists>s w'. Stage_init dm frame par t0v Tv False w = (Inr s, w')
     \<and> (\<forall>h. Tv = FreeTime h \<longrightarrow>
          (\<exists>v. T' s = TimeExpr (MXSym v)
             \<and> fresh w \<le> sym_id v \<and> sym_id v < fresh w'
             \<and> v \<in> set (variables s '''')
             \<and> dd_get (constraints' s) ''point''
                 = [(MXBin GreaterEq (MXSym v) (MXConst 0), frame,
                     \<lparr>grid_arg = ''point'', include_last_arg = True, include_first_arg = True\<rparr>)]
             \<and> map_of (initial' s) (MXSym v) = Some h))
     \<and> (\<forall>h. t0v = FreeTime h \<longrightarrow>
          (\<exists>v. t0' s = TimeExpr (MXSym v)
             \<and> fresh w \<le> sym_id v \<and> sym_id v < fresh w'
             \<and> v \<in> set (variables s '''')
             \<and> map_of (initial' s) (MXSym v) = Some h
             \<and> (\<forall>c \<in> set (concat (map snd (constraints' s))). v \<notin> set (symbols (fst c)))))
     \<and> ((\<forall>h. Tv \<noteq> FreeTime h) \<longrightarrow> constraints' s = []))
   \<and> (\<exists>s w'. Stage_init dm frame par t0v Tv True w = (Inr s, w')
     \<and> t0' s = t0v \<and> T' s = Tv \<and> variables s = (\<lambda>_. []) \<and> constraints' s = []
     \<and> initial' s = [] \<and> master_is_transcribed w' = master_is_transcribed w)"
proof (rule conjI)
  show "\<exists>s w'. Stage_init dm frame par t0v Tv False w = (Inr s, w')
     \<and> (\<forall>h. Tv = FreeTime h \<longrightarrow>
          (\<exists>v. T' s = TimeExpr (MXSym v)
             \<and> fresh w \<le> sym_id v \<and> sym_id v < fresh w'
             \<and> v \<in> set (variables s '''')
             \<and> dd_get (constraints' s) ''point''
                 = [(MXBin GreaterEq (MXSym v) (MXConst 0), frame,
                     \<lparr>grid_arg = ''point'', include_last_arg = True, include_first_arg = True\<rparr>)]
             \<and> map_of (initial' s) (MXSym v) = Some h))
     \<and> (\<forall>h. t0v = FreeTime h \<longrightarrow>
          (\<exists>v. t0' s = TimeExpr (MXSym v)
             \<and> fresh w \<le> sym_id v \<and> sym_id v < fresh w'
             \<and> v \<in> set (variables s '''')
             \<and> map_of (initial' s) (MXSym v) = Some h
             \<and> (\<forall>c \<in> set (concat (map snd (constraints' s))). v \<notin> set (symbols (fst c)))))
     \<and> ((\<forall>h. Tv \<noteq> FreeTime h) \<longrightarrow> constraints' s = [])"
    by (cases t0v; cases Tv) (simp_all add: construct_defs Let_def)
  show "\<exists>s w'. Stage_init dm frame par t0v Tv True w = (Inr s, w')
     \<and> t0' s = t0v \<and> T' s = Tv \<and> variables s = (\<lambda>_. []) \<and> constraints' s = []
     \<and> initial' s = [] \<and> master_is_transcribed w' = master_is_transcribed w"
    by (simp add: Stage_init_def MX_sym_def create_placeholder_expr_def blank_def Let_def)
qed

theorem free_time_at_construction_witness:
  "\<exists>s w' v v0.
     Stage_init demo_method ''f'' (Some (Parent True)) (FreeTime (Num 0)) (FreeTime (Num 2)) False
       demo_world = (Inr s, w')
     \<and> T' s = TimeExpr (MXSym v) \<and> v \<in> set (variables s '''')
     \<and> map fst (dd_get (constraints' s) ''point'') = [MXBin GreaterEq (MXSym v) (MXConst 0)]
     \<and> map_of (initial' s) (MXSym v) = Some (Num 2)
     \<and> t0' s = TimeExpr (MXSym v0) \<and> v0 \<in> set (variables s '''')
     \<and> map_of (initial' s) (MXSym v0) = Some (Num 0)"
proof -
  obtain s w' where r: "Stage_init demo_method ''f'' (Some (Parent True)) (FreeTime (Num 0))
       (FreeTime (Num 2)) False demo_world = (Inr s, w')"
    and T: "\<forall>h. FreeTime (Num 2) = FreeTime h \<longrightarrow>
          (\<exists>v. T' s = TimeExpr (MXSym v)
             \<and> fresh demo_world \<le> sym_id v \<and> sym_id v < fresh w'
             \<and> v \<in> set (variables s '''')
             \<and> dd_get (constraints' s) ''point''
                 = [(MXBin GreaterEq (MXSym v) (MXConst 0), ''f'',
                     \<lparr>grid_arg = ''point'', include_last_arg = True, include_first_arg = True\<rparr>)]
             \<and> map_of (initial' s) (MXSym v) = Some h)"
    and t0: "\<forall>h. FreeTime (Num 0) = FreeTime h \<longrightarrow>
          (\<exists>v. t0' s = TimeExpr (MXSym v)
             \<and> fresh demo_world \<le> sym_id v \<and> sym_id v < fresh w'
             \<and> v \<in> set (variables s '''')
             \<and> map_of (initial' s) (MXSym v) = Some h
             \<and> (\<forall>c \<in> set (concat (map snd (constraints' s))). v \<notin> set (symbols (fst c))))"
    using free_time_at_construction [of demo_method "''f''" "Some (Parent True)" "FreeTime (Num 0)"
        "FreeTime (Num 2)" demo_world, THEN conjunct1]
    by blast
  from T obtain v where v: "T' s = TimeExpr (MXSym v)" "v \<in> set (variables s '''')"
     "dd_get (constraints' s) ''point''
                 = [(MXBin GreaterEq (MXSym v) (MXConst 0), ''f'',
                     \<lparr>grid_arg = ''point'', include_last_arg = True, include_first_arg = True\<rparr>)]"
     "map_of (initial' s) (MXSym v) = Some (Num 2)"
    by blast
  from t0 obtain v0 where v0: "t0' s = TimeExpr (MXSym v0)" "v0 \<in> set (variables s '''')"
     "map_of (initial' s) (MXSym v0) = Some (Num 0)"
    by blast
  show ?thesis using r v v0 by (intro exI [of _ s] exI [of _ w'] exI [of _ v] exI [of _ v0]) simp
qed

subsection \<open>The transcribed flag\<close>

lemma set_transcribed_False:
  "master' s \<or> \<not> master_is_transcribed w \<Longrightarrow> \<not> master_is_transcribed (set_transcribed s False w)"
  by (auto simp: set_transcribed_def)

lemma state_master: "master' (fst (snd (state s r c q w))) = master' s"
  by (simp add: state_def MX_sym_def)

lemma state_clears: "master' s \<Longrightarrow> \<not> master_is_transcribed (snd (snd (state s r c q w)))"
  by (simp add: state_def MX_sym_def set_transcribed_def)

lemma set_der_keeps_clear:
  "\<not> master_is_transcribed w \<Longrightarrow> \<not> master_is_transcribed (snd (snd (set_der s st d w)))"
  by (simp add: set_der_def set_transcribed_def)

lemma control_clears:
  "master' s \<Longrightarrow> \<not> master_is_transcribed (snd (snd (control s r c order w)))"
proof (induction s r c order w rule: control.induct)
  case (1 s n_rows n_cols order w)
  show ?case
  proof (cases "order \<ge> 1")
    case False
    with "1.prems" show ?thesis
      by (simp add: MX_sym_def set_transcribed_def)
  next
    case True
    obtain u s1 w1 where st: "state s n_rows n_cols False w = (u, s1, w1)"
      by (cases "state s n_rows n_cols False w") auto
    have m1: "master' s1" using state_master [of s n_rows n_cols False w] st "1.prems" by simp
    have ih: "\<not> master_is_transcribed (snd (snd (control s1 n_rows n_cols (order - 1) w1)))"
      using "1.IH" [OF True st [symmetric] refl m1] .
    obtain r2 s2 w2 where rec: "control s1 n_rows n_cols (order - 1) w1 = (r2, s2, w2)"
      by (cases "control s1 n_rows n_cols (order - 1) w1") auto
    have w2: "\<not> master_is_transcribed w2" using ih rec by simp
    show ?thesis
    proof (cases r2)
      case (Inl e)
      then show ?thesis using True st rec w2 by (simp del: control.simps add: control.simps [of s])
    next
      case (Inr helper_u)
      obtain r3 s3 w3 where sd: "set_der s2 u helper_u w2 = (r3, s3, w3)"
        by (cases "set_der s2 u helper_u w2") auto
      have "\<not> master_is_transcribed w3"
        using set_der_keeps_clear [OF w2, of s2 u helper_u] sd by simp
      then show ?thesis using True st rec Inr sd
        by (cases r3) (simp_all del: control.simps add: control.simps [of s])
    qed
  qed
qed

text \<open>
  Claim C4. On a stage that has a master, every mutating call leaves the master's
  \<^verbatim>\<open>_is_transcribed\<close> false: \<^verbatim>\<open>state\<close>, \<^verbatim>\<open>control\<close> (of any order),
  \<^verbatim>\<open>algebraic\<close>, \<^verbatim>\<open>parameter\<close>, \<^verbatim>\<open>variable\<close>, \<^verbatim>\<open>set_der\<close>, \<^verbatim>\<open>set_next\<close>,
  \<^verbatim>\<open>subject_to\<close>, \<^verbatim>\<open>add_objective\<close> and \<^verbatim>\<open>method\<close>, also when the call raises
  (the flag is cleared first). \<^verbatim>\<open>stage()\<close> without a template always creates the
  child and clears the flag; with a template it clears the flag whenever it returns a
  child.
\<close>

theorem mutating_calls_clear_transcribed:
  "master' s \<longrightarrow>
     \<not> master_is_transcribed (snd (snd (state s n_rows n_cols quad w)))
   \<and> \<not> master_is_transcribed (snd (snd (control s n_rows n_cols order w)))
   \<and> \<not> master_is_transcribed (snd (snd (algebraic s n_rows n_cols w)))
   \<and> \<not> master_is_transcribed (snd (snd (parameter s n_rows n_cols tag w)))
   \<and> \<not> master_is_transcribed (snd (snd (variable s n_rows n_cols tag w)))
   \<and> \<not> master_is_transcribed (snd (snd (set_der s st d w)))
   \<and> \<not> master_is_transcribed (snd (snd (set_next s st d w)))
   \<and> \<not> master_is_transcribed (snd (snd (subject_to s constr grid inc_first inc_last meta w)))
   \<and> \<not> master_is_transcribed (snd (add_objective s trm w))
   \<and> \<not> master_is_transcribed (snd (method_stage inherit s m w))
   \<and> (\<exists>child self' w'. stage dm frame merge (Node s cs) None kw w = (Inr child, self', w')
         \<and> \<not> master_is_transcribed w')
   \<and> (\<forall>tpl child self' w'. stage dm frame merge (Node s cs) tpl kw w = (Inr child, self', w')
         \<longrightarrow> \<not> master_is_transcribed w')"
proof (intro impI conjI)
  assume m: "master' s"
  show "\<not> master_is_transcribed (snd (snd (state s n_rows n_cols quad w)))"
    using m by (rule state_clears)
  show "\<not> master_is_transcribed (snd (snd (control s n_rows n_cols order w)))"
    using m by (rule control_clears)
  show "\<not> master_is_transcribed (snd (snd (algebraic s n_rows n_cols w)))"
    using m by (simp add: algebraic_def MX_sym_def set_transcribed_def)
  show "\<not> master_is_transcribed (snd (snd (parameter s n_rows n_cols tag w)))"
    using m by (simp add: parameter_def MX_sym_def set_transcribed_def)
  show "\<not> master_is_transcribed (snd (snd (variable s n_rows n_cols tag w)))"
    using m by (simp add: variable_def MX_sym_def set_transcribed_def)
  show "\<not> master_is_transcribed (snd (snd (set_der s st d w)))"
    using m by (simp add: set_der_def set_transcribed_def Let_def)
  show "\<not> master_is_transcribed (snd (snd (set_next s st d w)))"
    using m by (simp add: set_next_def set_transcribed_def Let_def)
  show "\<not> master_is_transcribed (snd (snd (subject_to s constr grid inc_first inc_last meta w)))"
    using m by (simp add: subject_to_def set_transcribed_def Let_def)
  show "\<not> master_is_transcribed (snd (add_objective s trm w))"
    using m by (simp add: add_objective_def set_transcribed_def)
  show "\<not> master_is_transcribed (snd (method_stage inherit s m w))"
    using m by (simp add: method_stage_def set_transcribed_def Let_def)
  show "\<exists>child self' w'. stage dm frame merge (Node s cs) None kw w = (Inr child, self', w')
         \<and> \<not> master_is_transcribed w'"
  proof -
    obtain c w1 where "Stage_kw dm frame (Some (Parent (master' s))) kw w = (Inr c, w1)"
      using Stage_kw_returns by blast
    then show ?thesis using m by (simp add: stage_def set_transcribed_def)
  qed
  show "\<forall>tpl child self' w'. stage dm frame merge (Node s cs) tpl kw w = (Inr child, self', w')
         \<longrightarrow> \<not> master_is_transcribed w'"
    using m by (auto simp: stage_def set_transcribed_def split: option.splits prod.splits sum.splits if_splits)
qed

theorem mutating_calls_clear_transcribed_witness:
  "master' demo_stage \<and> master_is_transcribed demo_world
   \<and> \<not> master_is_transcribed (snd (snd (state demo_stage 1 1 False demo_world)))
   \<and> \<not> master_is_transcribed (snd (snd (control demo_stage 1 1 2 demo_world)))
   \<and> \<not> master_is_transcribed (snd (snd (set_der demo_stage demo_x (MXNeg demo_x) demo_world)))
   \<and> \<not> master_is_transcribed
         (snd (snd (subject_to demo_stage demo_x (Some ''nowhere'') True True ''m'' demo_world)))
   \<and> (\<exists>child self' w'.
         stage demo_method ''f'' id (Node demo_stage []) None no_kwargs demo_world
           = (Inr child, self', w')
         \<and> \<not> master_is_transcribed w')"
proof -
  have m: "master' demo_stage" by (simp add: demo_stage_def blank_def)
  have t: "master_is_transcribed demo_world" by (simp add: demo_world_def)
  note th = mutating_calls_clear_transcribed
    [where s = demo_stage and w = demo_world and n_rows = 1 and n_cols = 1 and quad = False
       and order = 2 and st = demo_x and d = "MXNeg demo_x" and constr = demo_x
       and grid = "Some ''nowhere''" and inc_first = True and inc_last = True
       and meta = "''m''" and dm = demo_method and frame = "''f''" and merge = id
       and cs = "[]" and kw = no_kwargs, THEN mp, OF m]
  show ?thesis using m t th by blast
qed

subsection \<open>Constraints and their grid\<close>

text \<open>
  Claim C6 as stated fails for a constraint that depends on nothing but a symbol made
  by \<^verbatim>\<open>inf_der\<close>: it is no signal in the claim's words, yet \<^verbatim>\<open>is_signal\<close> also
  looks at the keys of \<^verbatim>\<open>_inf_der\<close>, so \<^verbatim>\<open>subject_to\<close> without a grid files it
  under \<^verbatim>\<open>control\<close>, and with \<^verbatim>\<open>grid='point'\<close> rejects it as a signal.
\<close>

theorem subject_to_inf_der_counterexample:
  "(case inf_der demo_stage (MXConst 1) demo_world of (d, s1, w1) \<Rightarrow>
      \<not> is_signal_spec s1 (MXBin GreaterEq d (MXConst 0))
      \<and> (case subject_to s1 (MXBin GreaterEq d (MXConst 0)) None True True ''m'' w1 of
            (r, s2, w2) \<Rightarrow> r = Inr () \<and> map fst (constraints' s2) = [''control''])
      \<and> fst (subject_to s1 (MXBin GreaterEq d (MXConst 0)) (Some ''point'') True True ''m'' w1)
          = Inl (Exception (''Got a signal expression for grid '' @ apostrophe @ ''point''
                            @ apostrophe @ ''.'')))"
  by (simp add: inf_der_def MX_sym_def is_signal_spec_def subject_to_def is_signal_def
      depends_on_def x_vec_def u_vec_def z_vec_def grids_def set_transcribed_def dd_get_def
      demo_stage_def blank_def demo_world_def Let_def)

text \<open>
  Claim C6, amended. A constraint is a signal when it depends on a state, a control,
  an algebraic, the time, a variable tagged \<^verbatim>\<open>control\<close> or \<^verbatim>\<open>states\<close>, or a symbol
  made by \<^verbatim>\<open>inf_der\<close>. \<^verbatim>\<open>subject_to\<close> without a grid never raises: it appends the
  constraint under \<^verbatim>\<open>control\<close> when it is a signal and under \<^verbatim>\<open>point\<close> otherwise.
  With a grid \<open>g\<close> it appends the constraint under \<open>g\<close> when \<open>g\<close> is one of the five
  grids and the constraint is a signal exactly when \<open>g\<close> is not \<^verbatim>\<open>point\<close>; in every
  other case it raises at once and leaves the stage as it was. Either way the master's
  transcribed flag is cleared.
\<close>

theorem subject_to_grid_inference:
  "is_signal s e = (is_signal_spec s e \<or> depends_on e (map fst (inf_der' s)))
   \<and> subject_to s e None inc_first inc_last meta w =
       (let g = (if is_signal s e then ''control'' else ''point'') in
        (Inr (),
         s\<lparr>constraints' :=
             AList.update g
               (dd_get (constraints' s) g
                @ [(e, meta, \<lparr>grid_arg = g, include_last_arg = inc_last,
                               include_first_arg = inc_first\<rparr>)])
               (constraints' s)\<rparr>,
         set_transcribed s False w))
   \<and> (if g \<in> {''point'', ''control'', ''inf'', ''integrator'', ''integrator_roots''}
          \<and> (is_signal s e \<longleftrightarrow> g \<noteq> ''point'')
       then subject_to s e (Some g) inc_first inc_last meta w =
         (Inr (),
          s\<lparr>constraints' :=
              AList.update g
                (dd_get (constraints' s) g
                 @ [(e, meta, \<lparr>grid_arg = g, include_last_arg = inc_last,
                                include_first_arg = inc_first\<rparr>)])
                (constraints' s)\<rparr>,
          set_transcribed s False w)
       else (\<exists>msg. subject_to s e (Some g) inc_first inc_last meta w
                     = (Inl (Exception msg), s, set_transcribed s False w)))"
proof (intro conjI)
  show "is_signal s e = (is_signal_spec s e \<or> depends_on e (map fst (inf_der' s)))"
    by (auto simp: is_signal_def is_signal_spec_def x_vec_def u_vec_def z_vec_def
        depends_on_def list_ex_iff)
  show "subject_to s e None inc_first inc_last meta w =
       (let g = (if is_signal s e then ''control'' else ''point'') in
        (Inr (),
         s\<lparr>constraints' :=
             AList.update g
               (dd_get (constraints' s) g
                @ [(e, meta, \<lparr>grid_arg = g, include_last_arg = inc_last,
                               include_first_arg = inc_first\<rparr>)])
               (constraints' s)\<rparr>,
         set_transcribed s False w))"
    by (simp add: subject_to_def grids_def Let_def)
  show "(if g \<in> {''point'', ''control'', ''inf'', ''integrator'', ''integrator_roots''}
          \<and> (is_signal s e \<longleftrightarrow> g \<noteq> ''point'')
       then subject_to s e (Some g) inc_first inc_last meta w =
         (Inr (),
          s\<lparr>constraints' :=
              AList.update g
                (dd_get (constraints' s) g
                 @ [(e, meta, \<lparr>grid_arg = g, include_last_arg = inc_last,
                                include_first_arg = inc_first\<rparr>)])
                (constraints' s)\<rparr>,
          set_transcribed s False w)
       else (\<exists>msg. subject_to s e (Some g) inc_first inc_last meta w
                     = (Inl (Exception msg), s, set_transcribed s False w)))"
    by (cases "is_signal s e") (auto simp: subject_to_def grids_def Let_def)
qed

theorem subject_to_grid_inference_witness:
  "is_signal demo_continuous demo_x
   \<and> map fst (constraints' (fst (snd
        (subject_to demo_continuous demo_x None True True ''m'' demo_world4)))) = [''control'']
   \<and> map fst (constraints' (fst (snd
        (subject_to demo_continuous (MXConst 1) None True True ''m'' demo_world4)))) = [''point'']
   \<and> (\<exists>msg. subject_to demo_continuous demo_x (Some ''point'') True True ''m'' demo_world4
        = (Inl (Exception msg), demo_continuous, set_transcribed demo_continuous False demo_world4))
   \<and> (\<exists>msg. subject_to demo_continuous (MXConst 1) (Some ''inf'') True True ''m'' demo_world4
        = (Inl (Exception msg), demo_continuous, set_transcribed demo_continuous False demo_world4))
   \<and> (\<exists>msg. subject_to demo_continuous demo_x (Some ''nowhere'') True True ''m'' demo_world4
        = (Inl (Exception msg), demo_continuous, set_transcribed demo_continuous False demo_world4))"
proof -
  have sx: "is_signal demo_continuous demo_x"
    by (simp add: is_signal_def depends_on_def x_vec_def demo_continuous_def demo_x_def)
  have s1: "\<not> is_signal demo_continuous (MXConst 1)"
    by (simp add: is_signal_def depends_on_def x_vec_def u_vec_def z_vec_def
        demo_continuous_def demo_stage_def blank_def)
  have c: "constraints' demo_continuous = []"
    by (simp add: demo_continuous_def demo_stage_def blank_def)
  have a: "map fst (constraints' (fst (snd
        (subject_to demo_continuous demo_x None True True ''m'' demo_world4)))) = [''control'']"
    using sx c subject_to_grid_inference [of demo_continuous demo_x True True "''m''" demo_world4]
    by (simp add: Let_def)
  have b: "map fst (constraints' (fst (snd
        (subject_to demo_continuous (MXConst 1) None True True ''m'' demo_world4)))) = [''point'']"
    using s1 c subject_to_grid_inference [of demo_continuous "MXConst 1" True True "''m''" demo_world4]
    by (simp add: Let_def)
  have d: "\<exists>msg. subject_to demo_continuous demo_x (Some ''point'') True True ''m'' demo_world4
        = (Inl (Exception msg), demo_continuous, set_transcribed demo_continuous False demo_world4)"
    using sx subject_to_grid_inference [of demo_continuous demo_x True True "''m''" demo_world4 "''point''"]
    by simp
  have e: "\<exists>msg. subject_to demo_continuous (MXConst 1) (Some ''inf'') True True ''m'' demo_world4
        = (Inl (Exception msg), demo_continuous, set_transcribed demo_continuous False demo_world4)"
    using s1 subject_to_grid_inference [of demo_continuous "MXConst 1" True True "''m''" demo_world4 "''inf''"]
    by simp
  have f: "\<exists>msg. subject_to demo_continuous demo_x (Some ''nowhere'') True True ''m'' demo_world4
        = (Inl (Exception msg), demo_continuous, set_transcribed demo_continuous False demo_world4)"
    using subject_to_grid_inference [of demo_continuous demo_x True True "''m''" demo_world4 "''nowhere''"]
    by simp
  show ?thesis using sx a b d e f by simp
qed

subsection \<open>Sampling\<close>

lemmas sample_defs =
  sample_def parse_grid_def grid_control_def grid_integrator_def list_item_def
  demo_method_def demo_method_short_def demo_short_def demo_continuous_def demo_stage_def
  blank_def demo_x_def no_fine_def no_roots_def

text \<open>
  Claim C2, on the code: a method with \<open>N = 3\<close> control intervals whose control
  evaluator tags the point it is asked for. \<^verbatim>\<open>_parse_grid\<close> sets \<^verbatim>\<open>include_last\<close>
  for a leading dash as well as for a trailing one and never changes
  \<^verbatim>\<open>include_first\<close>. So \<^verbatim>\<open>'-control'\<close> samples the same points as
  \<^verbatim>\<open>'control-'\<close> (boundary 0 included, the final boundary dropped), and
  \<^verbatim>\<open>'-control-'\<close> gives the three points 0, 1, 2 where the claim expects two.
\<close>

theorem sample_dash_control_dash:
  "parse_grid ''-control'' = (''control'', True, False)
   \<and> parse_grid ''control-'' = (''control'', True, False)
   \<and> parse_grid ''-control-'' = (''control'', True, False)
   \<and> N (method' demo_continuous) = 3
   \<and> sample id no_fine no_roots demo_continuous demo_x ''-control-'' None
       = Inr ([MXConst 0, MXConst 1, MXConst 2, MXConst 3],
              [MXBin Plus demo_x (MXConst 0), MXBin Plus demo_x (MXConst 1),
               MXBin Plus demo_x (MXConst 2)])
   \<and> sample id no_fine no_roots demo_continuous demo_x ''-control'' None
       = sample id no_fine no_roots demo_continuous demo_x ''control-'' None"
  by (simp add: sample_defs Let_def upto_rec1)

text \<open>
  Claim C7 as stated fails on the integrator grid: \<^verbatim>\<open>_grid_integrator\<close> has no
  \<^verbatim>\<open>try\<close>. Sampling on \<^verbatim>\<open>'integrator'\<close> raises \<^verbatim>\<open>IndexError\<close> when the final
  \<^verbatim>\<open>eval_at_control(stage, expr, -1)\<close> does, and when \<^verbatim>\<open>eval_at_integrator\<close> does.
\<close>

theorem integrator_grid_counterexample:
  "eval_at_control (method' demo_continuous) demo_x (- 1) = Inl IndexError
   \<and> sample id no_fine no_roots demo_continuous demo_x ''integrator'' None = Inl IndexError
   \<and> eval_at_integrator (method' demo_short) demo_x 0 1 = Inl IndexError
   \<and> sample id no_fine no_roots demo_short demo_x ''integrator'' None = Inl IndexError"
  by (simp add: sample_defs Let_def upto_rec1)

lemma control_points_recover:
  "\<forall>k \<in> set ks. \<forall>err. eval_at_control m e k = Inl err \<longrightarrow> err = IndexError \<Longrightarrow>
   control_points m e ks
     = Inr (map (\<lambda>k. case eval_at_control m e k of Inl _ \<Rightarrow> MXNan (shape e) | Inr r \<Rightarrow> r) ks)"
proof (induction ks)
  case Nil
  then show ?case by simp
next
  case (Cons k ks)
  have rest: "control_points m e ks
     = Inr (map (\<lambda>k. case eval_at_control m e k of Inl _ \<Rightarrow> MXNan (shape e) | Inr r \<Rightarrow> r) ks)"
    using Cons by simp
  show ?case
  proof (cases "eval_at_control m e k")
    case (Inl err)
    then have "err = IndexError" using Cons.prems by simp
    with Inl rest show ?thesis by simp
  next
    case (Inr r)
    with rest show ?thesis by simp
  qed
qed

lemma integrator_steps_raise:
  "l \<in> set ls \<Longrightarrow> eval_at_integrator m e k l = Inl err \<Longrightarrow>
   \<exists>err'. integrator_steps m e k ls = Inl err'"
  by (induction ls) (auto split: sum.splits)

lemma integrator_intervals_raise:
  "k \<in> set ks \<Longrightarrow> l \<in> set [0 .. M m - 1] \<Longrightarrow> eval_at_integrator m e k l = Inl err \<Longrightarrow>
   \<exists>err'. integrator_intervals m e ks = Inl err'"
proof (induction ks)
  case Nil
  then show ?case by simp
next
  case (Cons a ks)
  show ?case
  proof (cases "a = k")
    case True
    then obtain err' where "integrator_steps m e a [0 .. M m - 1] = Inl err'"
      using integrator_steps_raise [OF Cons.prems(2) Cons.prems(3)] by auto
    then show ?thesis by simp
  next
    case False
    then have "k \<in> set ks" using Cons.prems(1) by simp
    then obtain err' where "integrator_intervals m e ks = Inl err'"
      using Cons.IH Cons.prems by blast
    then show ?thesis by (simp split: sum.splits)
  qed
qed

text \<open>
  Claim C7, amended. On the control grid, when \<^verbatim>\<open>eval_at_control\<close> raises nothing
  but \<^verbatim>\<open>IndexError\<close> at the points asked for, \<^verbatim>\<open>_grid_control\<close> returns a value
  for every point: the evaluator's where it has one, and not-a-number of the shape of
  the expression where it raised. On the integrator grid there is no recovery: when
  \<^verbatim>\<open>eval_at_integrator\<close> raises at a point of the grid, or \<^verbatim>\<open>eval_at_control\<close> at
  the final boundary, \<^verbatim>\<open>_grid_integrator\<close> raises.
\<close>

theorem control_grid_recovers_integrator_grid_raises:
  "((\<forall>k \<in> set ((if inc_first then [0] else []) @ [1 .. N (method' stg) - 1]
                 @ (if inc_last then [- 1] else [])).
       \<forall>err. eval_at_control (method' stg) e k = Inl err \<longrightarrow> err = IndexError) \<longrightarrow>
     grid_control stg e grid inc_first inc_last
       = Inr (control_grid (method' stg),
              map (\<lambda>k. case eval_at_control (method' stg) e k of
                          Inl _ \<Rightarrow> MXNan (shape e) | Inr r \<Rightarrow> r)
                ((if inc_first then [0] else []) @ [1 .. N (method' stg) - 1]
                 @ (if inc_last then [- 1] else []))))
   \<and> (0 \<le> k \<and> k < N (method' stg) \<and> 0 \<le> l \<and> l < M (method' stg)
        \<and> eval_at_integrator (method' stg) e k l = Inl err \<longrightarrow>
      (\<exists>err'. grid_integrator stg e grid inc_first inc_last = Inl err'))
   \<and> (eval_at_control (method' stg) e (- 1) = Inl err \<longrightarrow>
      (\<exists>err'. grid_integrator stg e grid inc_first True = Inl err'))"
proof (intro conjI impI)
  assume a: "\<forall>k \<in> set ((if inc_first then [0] else []) @ [1 .. N (method' stg) - 1]
                 @ (if inc_last then [- 1] else [])).
       \<forall>err. eval_at_control (method' stg) e k = Inl err \<longrightarrow> err = IndexError"
  have "control_points (method' stg) e
          ((if inc_first then [0] else []) @ [1 .. N (method' stg) - 1]
                 @ (if inc_last then [- 1] else []))
     = Inr (map (\<lambda>k. case eval_at_control (method' stg) e k of
                          Inl _ \<Rightarrow> MXNan (shape e) | Inr r \<Rightarrow> r)
                ((if inc_first then [0] else []) @ [1 .. N (method' stg) - 1]
                 @ (if inc_last then [- 1] else [])))"
    using a by (rule control_points_recover)
  then show "grid_control stg e grid inc_first inc_last
       = Inr (control_grid (method' stg),
              map (\<lambda>k. case eval_at_control (method' stg) e k of
                          Inl _ \<Rightarrow> MXNan (shape e) | Inr r \<Rightarrow> r)
                ((if inc_first then [0] else []) @ [1 .. N (method' stg) - 1]
                 @ (if inc_last then [- 1] else [])))"
    by (cases inc_first; cases inc_last) (simp_all add: grid_control_def Let_def)
next
  assume b: "0 \<le> k \<and> k < N (method' stg) \<and> 0 \<le> l \<and> l < M (method' stg)
        \<and> eval_at_integrator (method' stg) e k l = Inl err"
  then have "k \<in> set [0 .. N (method' stg) - 1]" "l \<in> set [0 .. M (method' stg) - 1]" by simp_all
  then obtain err' where
    "integrator_intervals (method' stg) e [0 .. N (method' stg) - 1] = Inl err'"
    using integrator_intervals_raise b by blast
  then show "\<exists>err'. grid_integrator stg e grid inc_first inc_last = Inl err'"
    by (simp add: grid_integrator_def)
next
  assume c: "eval_at_control (method' stg) e (- 1) = Inl err"
  then show "\<exists>err'. grid_integrator stg e grid inc_first True = Inl err'"
    by (simp add: grid_integrator_def split: sum.splits prod.splits)
qed

theorem control_grid_recovers_integrator_grid_raises_witness:
  "grid_control demo_continuous demo_x ''control'' True True
     = Inr ([MXConst 0, MXConst 1, MXConst 2, MXConst 3],
            [MXBin Plus demo_x (MXConst 0), MXBin Plus demo_x (MXConst 1),
             MXBin Plus demo_x (MXConst 2), MXNan (1, 1)])
   \<and> eval_at_integrator (method' demo_short) demo_x 0 1 = Inl IndexError
   \<and> (\<exists>err'. grid_integrator demo_short demo_x ''integrator'' True False = Inl err')
   \<and> eval_at_control (method' demo_continuous) demo_x (- 1) = Inl IndexError
   \<and> (\<exists>err'. grid_integrator demo_continuous demo_x ''integrator'' True True = Inl err')"
proof -
  have m: "method' demo_continuous = demo_method" "method' demo_short = demo_method_short"
    by (simp_all add: demo_short_def demo_continuous_def demo_stage_def blank_def)
  have a: "grid_control demo_continuous demo_x ''control'' True True
     = Inr ([MXConst 0, MXConst 1, MXConst 2, MXConst 3],
            [MXBin Plus demo_x (MXConst 0), MXBin Plus demo_x (MXConst 1),
             MXBin Plus demo_x (MXConst 2), MXNan (1, 1)])"
    using control_grid_recovers_integrator_grid_raises
      [where stg = demo_continuous and e = demo_x and inc_first = True and inc_last = True
         and grid = "''control''", THEN conjunct1]
    by (simp add: m demo_method_def demo_x_def upto_rec1)
  have b1: "eval_at_integrator (method' demo_short) demo_x 0 1 = Inl IndexError"
    by (simp add: m demo_method_short_def demo_method_def)
  have b: "\<exists>err'. grid_integrator demo_short demo_x ''integrator'' True False = Inl err'"
    using b1 control_grid_recovers_integrator_grid_raises
      [where stg = demo_short and e = demo_x and k = 0 and l = 1 and err = IndexError
         and inc_first = True and inc_last = False and grid = "''integrator''",
       THEN conjunct2, THEN conjunct1]
    by (simp add: m demo_method_short_def demo_method_def)
  have c1: "eval_at_control (method' demo_continuous) demo_x (- 1) = Inl IndexError"
    by (simp add: m demo_method_def)
  have c: "\<exists>err'. grid_integrator demo_continuous demo_x ''integrator'' True True = Inl err'"
    using c1 control_grid_recovers_integrator_grid_raises
      [where stg = demo_continuous and e = demo_x and err = IndexError
         and inc_first = True and grid = "''integrator''", THEN conjunct2, THEN conjunct2]
    by simp
  show ?thesis using a b1 b c1 c by simp
qed

subsection \<open>Cloning\<close>















lemma nth_orig: "map f (clone_orig s) ! clone_n_constr s = f (objective' s)"
  by (simp add: clone_n_constr_def clone_orig_def nth_append)

lemma drop_orig:
  "drop (Suc (clone_n_constr s)) (map f (clone_orig s)) = map f (map fst (initial' s))"
  by (simp add: clone_n_constr_def clone_orig_def)










lemma demo_template_built:
  "(case Stage_init demo_method ''m'' (Some (Parent True)) (FreeTime (Num 0)) (FreeTime (Num 2))
           False (demo_world\<lparr>fresh := 0\<rparr>) of
      (Inl e, w0) \<Rightarrow> None
    | (Inr s0, w0) \<Rightarrow>
       (case state s0 1 1 False w0 of (x, s1, w1) \<Rightarrow>
        case parameter s1 1 1 '''' w1 of (p, s2, w2) \<Rightarrow>
        case at_tf s2 x w2 of (r, s3, w3) \<Rightarrow>
        case add_objective s3 r w3 of (s4, w4) \<Rightarrow>
        case subject_to s4 (MXBin LessEq x (MXConst 1)) None True True ''m'' w4 of (r5, s5, w5) \<Rightarrow>
        case set_initial s5 x (Num 0) w5 of (r6, s6, w6) \<Rightarrow> Some (r5, r6, s6, fresh w6)))
   = Some (Inr (), Inr (), demo_template, 8)"
  by (simp add: Stage_init_def check_free_time_def variable_def set_t0_def set_T_def
      state_def parameter_def at_tf_def create_placeholder_expr_def MX_sym_def add_objective_def
      subject_to_def is_signal_def depends_on_def x_vec_def u_vec_def z_vec_def grids_def
      dd_get_def set_initial_def opti_in_str_def set_transcribed_def is_transcribed_def
      demo_template_def demo_stage_def blank_def demo_world_def Let_def eval_nat_numeral)

text \<open>
  A free horizon given to \<^verbatim>\<open>clone\<close>. With \<^verbatim>\<open>clone=True\<close> (the call
  \<^verbatim>\<open>stage(template, T=FreeTime(2))\<close>) the constructor leaves the sentinel, and
  \<^verbatim>\<open>clone\<close> replaces it by its own call of \<^verbatim>\<open>_check_free_time\<close>, after the
  template's variables, constraints and guesses are copied: the new variable, its
  constraint and its guess are added to them. Without the flag
  (\<^verbatim>\<open>template.clone(parent, T=FreeTime(2))\<close>) the constructor has replaced the
  sentinel before the copying, which overwrites the variable list, the constraints and the
  guesses: the horizon of the clone is a symbol that is in none of them.
\<close>

lemma clone_with_free_horizon:
  "(case clone demo_method ''f'' id demo_template (Some (Parent True))
           (no_kwargs\<lparr>kw_T := Some (FreeTime (Num 2)), kw_clone := Some True\<rparr>) demo_world8 of
      (Inr ret, w') \<Rightarrow>
        T' ret = TimeExpr (MXSym \<lparr>sym_id = 12, sym_name = ''v'', sym_shape = (1, 1)\<rparr>)
        \<and> variables ret '''' = [\<lparr>sym_id = 3, sym_name = ''v'', sym_shape = (1, 1)\<rparr>,
                                  \<lparr>sym_id = 4, sym_name = ''v'', sym_shape = (1, 1)\<rparr>,
                                  \<lparr>sym_id = 12, sym_name = ''v'', sym_shape = (1, 1)\<rparr>]
        \<and> map fst (dd_get (constraints' ret) ''point'')
            = [MXBin GreaterEq (MXSym \<lparr>sym_id = 4, sym_name = ''v'', sym_shape = (1, 1)\<rparr>)
                 (MXConst 0),
               MXBin GreaterEq (MXSym \<lparr>sym_id = 12, sym_name = ''v'', sym_shape = (1, 1)\<rparr>)
                 (MXConst 0)]
        \<and> map_of (initial' ret) (MXSym \<lparr>sym_id = 12, sym_name = ''v'', sym_shape = (1, 1)\<rparr>)
            = Some (Num 2)
    | (Inl e, w') \<Rightarrow> False)
   \<and> (case clone demo_method ''f'' id demo_template (Some (Parent True))
           (no_kwargs\<lparr>kw_T := Some (FreeTime (Num 2))\<rparr>) demo_world8 of
      (Inr ret, w') \<Rightarrow>
        T' ret = TimeExpr (MXSym \<lparr>sym_id = 11, sym_name = ''v'', sym_shape = (1, 1)\<rparr>)
        \<and> variables ret '''' = [\<lparr>sym_id = 3, sym_name = ''v'', sym_shape = (1, 1)\<rparr>,
                                  \<lparr>sym_id = 4, sym_name = ''v'', sym_shape = (1, 1)\<rparr>]
        \<and> map fst (dd_get (constraints' ret) ''point'')
            = [MXBin GreaterEq (MXSym \<lparr>sym_id = 4, sym_name = ''v'', sym_shape = (1, 1)\<rparr>)
                 (MXConst 0)]
        \<and> map_of (initial' ret) (MXSym \<lparr>sym_id = 11, sym_name = ''v'', sym_shape = (1, 1)\<rparr>)
            = None
    | (Inl e, w') \<Rightarrow> False)"
  by (simp add: clone_def Stage_kw_def no_kwargs_def construct_defs getitem_def
      substitute_def clone_orig_def clone_n_constr_def dict_of_def
      demo_template_def demo_stage_def demo_world8_def demo_world_def
      Let_def)




end
